theory Spec2Isabelle
  imports Complex_Main
begin

section \<open>Numbers and geometry\<close>

text \<open>
  JavaScript numbers are IEEE doubles. Coordinates, distances and scores are modelled as
  \<^typ>\<open>real\<close>: rounding error is not modelled. Where the code's result depends on the
  special values of a double (\<open>Infinity\<close> as the start of a minimum, \<open>x / 0\<close>, \<open>NaN\<close>)
  the model uses \<open>jsnum\<close> below and writes the special cases out.
\<close>

record point =
  lat :: real
  lng :: real

definition toRad :: "real \<Rightarrow> real" where
  "toRad d = (d * pi) / 180"

text \<open>\<open>Math.atan2(y, x)\<close> on finite arguments.\<close>

definition atan2 :: "real \<Rightarrow> real \<Rightarrow> real" where
  "atan2 y x =
     (if 0 < x then arctan (y / x)
      else if x < 0 then (if 0 \<le> y then arctan (y / x) + pi else arctan (y / x) - pi)
      else if 0 < y then pi / 2
      else if y < 0 then - (pi / 2)
      else 0)"

text \<open>\<open>haversineDistance(a, b)\<close>: the same function is repeated in every service file.\<close>

definition haversineDistance :: "point \<Rightarrow> point \<Rightarrow> real" where
  "haversineDistance a b =
     (let R = 6371000;
          dLat = toRad (lat b - lat a);
          dLon = toRad (lng b - lng a);
          lat1 = toRad (lat a);
          lat2 = toRad (lat b);
          s = sin (dLat / 2) * sin (dLat / 2) +
              cos lat1 * cos lat2 * sin (dLon / 2) * sin (dLon / 2);
          c = 2 * atan2 (sqrt s) (sqrt (1 - s))
      in R * c)"

text \<open>\<open>clamp(n, min, max)\<close>.\<close>

definition clamp :: "real \<Rightarrow> real \<Rightarrow> real \<Rightarrow> real" where
  "clamp n lo hi = max lo (min hi n)"


subsection \<open>The special values of a double\<close>

text \<open>
  A number that may be \<open>Infinity\<close>, \<open>-Infinity\<close> or \<open>NaN\<close>. The sign of zero is not
  modelled: every divisor of the code modelled here that can be zero is \<open>+0\<close> (a
  haversine distance, or \<open>x || 0\<close>).
\<close>

datatype jsnum = Fin real | PosInf | NegInf | NaN

fun js_le :: "jsnum \<Rightarrow> jsnum \<Rightarrow> bool" where
  "js_le NaN b = False"
| "js_le a NaN = False"
| "js_le NegInf b = True"
| "js_le a PosInf = True"
| "js_le (Fin a) (Fin b) = (a \<le> b)"
| "js_le a b = False"

fun js_lt :: "jsnum \<Rightarrow> jsnum \<Rightarrow> bool" where
  "js_lt NaN b = False"
| "js_lt a NaN = False"
| "js_lt (Fin a) (Fin b) = (a < b)"
| "js_lt (Fin a) PosInf = True"
| "js_lt NegInf (Fin b) = True"
| "js_lt NegInf PosInf = True"
| "js_lt a b = False"

text \<open>\<open>Math.min\<close> and \<open>Math.max\<close>: \<open>NaN\<close> if an argument is \<open>NaN\<close>.\<close>

definition js_min :: "jsnum \<Rightarrow> jsnum \<Rightarrow> jsnum" where
  "js_min a b = (if a = NaN \<or> b = NaN then NaN else if js_le a b then a else b)"

definition js_max :: "jsnum \<Rightarrow> jsnum \<Rightarrow> jsnum" where
  "js_max a b = (if a = NaN \<or> b = NaN then NaN else if js_le a b then b else a)"

fun js_neg :: "jsnum \<Rightarrow> jsnum" where
  "js_neg (Fin a) = Fin (- a)"
| "js_neg PosInf = NegInf"
| "js_neg NegInf = PosInf"
| "js_neg NaN = NaN"

fun js_add :: "jsnum \<Rightarrow> jsnum \<Rightarrow> jsnum" where
  "js_add NaN b = NaN"
| "js_add a NaN = NaN"
| "js_add (Fin a) (Fin b) = Fin (a + b)"
| "js_add PosInf NegInf = NaN"
| "js_add NegInf PosInf = NaN"
| "js_add PosInf b = PosInf"
| "js_add a PosInf = PosInf"
| "js_add NegInf b = NegInf"
| "js_add a NegInf = NegInf"

definition js_sub :: "jsnum \<Rightarrow> jsnum \<Rightarrow> jsnum" where
  "js_sub a b = js_add a (js_neg b)"

fun js_mul :: "jsnum \<Rightarrow> jsnum \<Rightarrow> jsnum" where
  "js_mul NaN b = NaN"
| "js_mul a NaN = NaN"
| "js_mul (Fin a) (Fin b) = Fin (a * b)"
| "js_mul (Fin a) PosInf = (if a = 0 then NaN else if 0 < a then PosInf else NegInf)"
| "js_mul (Fin a) NegInf = (if a = 0 then NaN else if 0 < a then NegInf else PosInf)"
| "js_mul PosInf (Fin b) = (if b = 0 then NaN else if 0 < b then PosInf else NegInf)"
| "js_mul NegInf (Fin b) = (if b = 0 then NaN else if 0 < b then NegInf else PosInf)"
| "js_mul PosInf PosInf = PosInf"
| "js_mul NegInf NegInf = PosInf"
| "js_mul PosInf NegInf = NegInf"
| "js_mul NegInf PosInf = NegInf"

fun js_div :: "jsnum \<Rightarrow> jsnum \<Rightarrow> jsnum" where
  "js_div NaN b = NaN"
| "js_div a NaN = NaN"
| "js_div (Fin a) (Fin b) =
     (if b = 0 then (if a = 0 then NaN else if 0 < a then PosInf else NegInf)
      else Fin (a / b))"
| "js_div (Fin a) b = Fin 0"
| "js_div PosInf (Fin b) = (if 0 \<le> b then PosInf else NegInf)"
| "js_div NegInf (Fin b) = (if 0 \<le> b then NegInf else PosInf)"
| "js_div a b = NaN"

fun js_abs :: "jsnum \<Rightarrow> jsnum" where
  "js_abs (Fin a) = Fin \<bar>a\<bar>"
| "js_abs PosInf = PosInf"
| "js_abs NegInf = PosInf"
| "js_abs NaN = NaN"

text \<open>\<open>Math.round\<close>: to the nearest integer, a tie upwards.\<close>

fun js_round :: "jsnum \<Rightarrow> jsnum" where
  "js_round (Fin a) = Fin (of_int \<lfloor>a + 1 / 2\<rfloor>)"
| "js_round a = a"

subsection \<open>\<open>Array.prototype.sort\<close> with a comparator\<close>

text \<open>
  The sort is stable, and \<open>x\<close> stays before \<open>y\<close> unless the comparator's value at
  \<open>(x, y)\<close> is positive (\<open>NaN\<close> counts as \<open>0\<close>). For a comparator that is a consistent
  order this determines the result; for any other comparator the engine's result is some
  permutation, of which this is one.
\<close>

fun js_positive :: "jsnum \<Rightarrow> bool" where
  "js_positive (Fin a) = (0 < a)"
| "js_positive PosInf = True"
| "js_positive a = False"

fun insertSorted :: "('a \<Rightarrow> 'a \<Rightarrow> jsnum) \<Rightarrow> 'a \<Rightarrow> 'a list \<Rightarrow> 'a list" where
  "insertSorted cmp x [] = [x]"
| "insertSorted cmp x (y # ys) =
     (if js_positive (cmp x y) then y # insertSorted cmp x ys else x # y # ys)"

definition jsSort :: "('a \<Rightarrow> 'a \<Rightarrow> jsnum) \<Rightarrow> 'a list \<Rightarrow> 'a list" where
  "jsSort cmp xs = foldr (insertSorted cmp) xs []"

subsection \<open>Distances\<close>

text \<open>\<open>pointToLineDistance(point, lineStart, lineEnd)\<close>.\<close>

definition pointToLineDistance :: "point \<Rightarrow> point \<Rightarrow> point \<Rightarrow> real" where
  "pointToLineDistance p lineStart lineEnd =
     (let A = lat p - lat lineStart;
          B = lng p - lng lineStart;
          C = lat lineEnd - lat lineStart;
          D = lng lineEnd - lng lineStart;
          dot = A * C + B * D;
          lenSq = C * C + D * D
      in if lenSq = 0 then haversineDistance p lineStart
         else (let param = max 0 (min 1 (dot / lenSq));
                   xx = lat lineStart + param * C;
                   yy = lng lineStart + param * D
               in haversineDistance p \<lparr>lat = xx, lng = yy\<rparr>))"

section \<open>Hazards and the hazard store\<close>

text \<open>
  A GeoJSON geometry. A point carries \<open>coordinates = [lng, lat]\<close>; of a polygon the code
  only ever reads the outer ring \<open>coordinates[0]\<close>, a list of \<open>[lng, lat]\<close> pairs. Any
  other \<open>geometry.type\<close> is kept with its name.
\<close>

datatype geometry =
    Point real real
  | Polygon "(real \<times> real) list"
  | OtherGeometry string

fun isPoint :: "geometry \<Rightarrow> bool" where
  "isPoint (Point x y) = True"
| "isPoint g = False"

fun isPolygon :: "geometry \<Rightarrow> bool" where
  "isPolygon (Polygon r) = True"
| "isPolygon g = False"

text \<open>
  A stored hazard. \<open>updatedAt\<close> is an ISO string in the code, written by
  \<open>new Date().toISOString()\<close> and read back by \<open>new Date(...)\<close>; the model keeps the
  instant in milliseconds.
\<close>

record hazard =
  hazard_id :: string
  hazard_type :: string
  geometry :: geometry
  severity :: real
  description :: string
  updatedAt :: int

text \<open>
  What a caller hands to \<open>addHazard\<close>. A field that is \<open>undefined\<close> or \<open>null\<close> is
  \<open>None\<close>. An own \<open>id\<close> of the draft survives the object spread \<open>{id: ..., ...hazard}\<close>.
\<close>

record draft_properties =
  p_severity :: "real option"
  p_description :: "string option"

record hazard_draft =
  d_id :: "string option"
  d_type :: "string option"
  d_geometry :: "geometry option"
  d_properties :: "draft_properties option"

text \<open>
  The store: the \<open>hazards\<close> array and the log of the calls of \<open>notifyListeners\<close>
  (event name and payload), each of which is delivered to every registered listener.
\<close>

record hazard_store =
  hazards :: "hazard list"
  emitted :: "(string \<times> hazard) list"

text \<open>Decimal text of a number, for the generated id.\<close>

definition digit_char :: "nat \<Rightarrow> char" where
  "digit_char d = ''0123456789'' ! d"

function showNat :: "nat \<Rightarrow> string" where
  "showNat n = (if n < 10 then [digit_char n] else showNat (n div 10) @ [digit_char (n mod 10)])"
  by pat_completeness auto
termination
  by (relation "measure (\<lambda>n. n)") auto

definition showInt :: "int \<Rightarrow> string" where
  "showInt i = (if i < 0 then CHR ''-'' # showNat (nat (- i)) else showNat (nat i))"

text \<open>JavaScript truthiness of an optional string: \<open>undefined\<close>, \<open>null\<close> and \<open>''\<close> are falsy.\<close>

fun truthyString :: "string option \<Rightarrow> bool" where
  "truthyString None = False"
| "truthyString (Some s) = (s \<noteq> [])"

text \<open>\<open>x || dflt\<close> on an optional number: \<open>undefined\<close> and \<open>0\<close> are falsy.\<close>

fun numOr :: "real option \<Rightarrow> real \<Rightarrow> real" where
  "numOr None dflt = dflt"
| "numOr (Some x) dflt = (if x = 0 then dflt else x)"

fun strOr :: "string option \<Rightarrow> string \<Rightarrow> string" where
  "strOr None dflt = dflt"
| "strOr (Some s) dflt = (if s = [] then dflt else s)"

text \<open>
  The coordinate check of \<open>addHazard\<close>, made for a Point only. Its \<open>isNaN\<close> tests have no
  counterpart here: a coordinate of the model is always a number.
\<close>

fun invalidCoordinates :: "geometry \<Rightarrow> bool" where
  "invalidCoordinates (Point lng' lat') =
     (lng' < -180 \<or> lng' > 180 \<or> lat' < -90 \<or> lat' > 90)"
| "invalidCoordinates g = False"

text \<open>The predicate of \<open>this.hazards.some(...)\<close> in \<open>addHazard\<close>.\<close>

fun duplicateOf :: "string \<Rightarrow> geometry \<Rightarrow> hazard \<Rightarrow> bool" where
  "duplicateOf ty (Point newLng newLat) existing =
     (case geometry existing of
        Point exLng exLat \<Rightarrow>
          haversineDistance \<lparr>lat = exLat, lng = exLng\<rparr> \<lparr>lat = newLat, lng = newLng\<rparr> < 100
          \<and> hazard_type existing = ty
      | _ \<Rightarrow> False)"
| "duplicateOf ty g existing = False"

text \<open>
  \<open>addHazard(hazard)\<close>. \<open>now\<close> is the clock, read for the id (\<open>Date.now()\<close>) and for
  \<open>updatedAt\<close> (\<open>new Date()\<close>) within the same call, and \<open>rnd\<close> the random suffix of the
  id. The result is the returned value (\<open>None\<close> for \<open>null\<close>) and the store afterwards.
\<close>

definition addHazard :: "int \<Rightarrow> string \<Rightarrow> hazard_draft \<Rightarrow> hazard_store
    \<Rightarrow> hazard option \<times> hazard_store" where
  "addHazard now rnd d st =
     (case (d_type d, d_geometry d, d_properties d) of
        (Some ty, Some g, Some props) \<Rightarrow>
          if \<not> truthyString (Some ty) then (None, st)
          else if invalidCoordinates g then (None, st)
          else if list_ex (duplicateOf ty g) (hazards st) then (None, st)
          else
            (let newHazard =
                   \<lparr> hazard_id = (case d_id d of
                                     Some i \<Rightarrow> i
                                   | None \<Rightarrow> ty @ ''-'' @ showInt now @ ''-'' @ rnd),
                     hazard_type = ty,
                     geometry = g,
                     severity = clamp (numOr (p_severity props) 1) 1 3,
                     description = strOr (p_description props) (''Reported '' @ ty),
                     updatedAt = now \<rparr>
             in (Some newHazard,
                 st\<lparr> hazards := hazards st @ [newHazard],
                     emitted := emitted st @ [(''hazardAdded'', newHazard)] \<rparr>))
      | _ \<Rightarrow> (None, st))"

text \<open>The consecutive pairs \<open>(xs[i], xs[i + 1])\<close> for \<open>i < xs.length - 1\<close>.\<close>

definition segments :: "'a list \<Rightarrow> ('a \<times> 'a) list" where
  "segments xs = zip xs (tl xs)"

text \<open>
  \<open>getMinDistanceToRoute(point, routeCoords)\<close>, the same in \<open>HazardService\<close> and
  \<open>RoutingService\<close>: \<open>Infinity\<close> for a route with fewer than two coordinates.
\<close>

definition getMinDistanceToRoute :: "point \<Rightarrow> point list \<Rightarrow> jsnum" where
  "getMinDistanceToRoute p routeCoords =
     foldl (\<lambda>minDistance (a, b). js_min minDistance (Fin (pointToLineDistance p a b)))
       PosInf (segments routeCoords)"

text \<open>
  \<open>pointInPolygon(point, polygon)\<close>: the loop runs over \<open>i\<close> with \<open>j\<close> the index before
  it (the last one for \<open>i = 0\<close>). The division is only evaluated when \<open>yi \<noteq> yj\<close>.
\<close>

definition previousVertices :: "point list \<Rightarrow> point list" where
  "previousVertices polygon = (if polygon = [] then [] else last polygon # butlast polygon)"

definition pointInPolygon :: "point \<Rightarrow> point list \<Rightarrow> bool" where
  "pointInPolygon p polygon =
     foldl (\<lambda>inside (vi, vj).
              if ((lat vi > lat p) \<noteq> (lat vj > lat p)) \<and>
                 lng p < (lng vj - lng vi) * (lat p - lat vi) / (lat vj - lat vi) + lng vi
              then \<not> inside else inside)
       False (zip polygon (previousVertices polygon))"

text \<open>\<open>coordinates[0].map(([lng, lat]) => ({lat, lng}))\<close>.\<close>

definition ringPoints :: "(real \<times> real) list \<Rightarrow> point list" where
  "ringPoints ring = map (\<lambda>(lng', lat'). \<lparr>lat = lat', lng = lng'\<rparr>) ring"

definition polygonIntersectsRouteBuffer :: "(real \<times> real) list \<Rightarrow> point list \<Rightarrow> real \<Rightarrow> bool" where
  "polygonIntersectsRouteBuffer ring routeCoords bufferMeters =
     (let polygon = ringPoints ring
      in list_ex (\<lambda>coord. pointInPolygon coord polygon) routeCoords
         \<or> list_ex (\<lambda>vertex. js_le (getMinDistanceToRoute vertex routeCoords) (Fin bufferMeters))
              polygon)"

section \<open>Routes\<close>

text \<open>A turn instruction, as the provider sends it or as the fallback route builds it.\<close>

record step =
  s_instruction :: "string option"
  s_distance :: "real option"
  s_type :: "string option"

record route =
  route_id :: string
  coordinates :: "point list"
  distance :: real
  duration :: real
  instructions :: "step list"
  safetyScore :: jsnum

section \<open>Hazard queries\<close>

text \<open>\<open>{...hazard, distanceToRoute}\<close> and \<open>{...hazard, distanceFromUser}\<close>.\<close>

record route_hazard =
  rh_hazard :: hazard
  distanceToRoute :: jsnum

record upcoming_hazard =
  uh_hazard :: route_hazard
  distanceFromUser :: real

text \<open>
  \<open>HAZARD_CONFIG[type]?.priority || 0\<close>. What the lookup inherits from \<open>Object.prototype\<close>
  has no \<open>priority\<close>, so an inherited name gives 0 like any other unlisted type.
\<close>

definition hazardPriority :: "string \<Rightarrow> real" where
  "hazardPriority ty =
     (if ty = ''accident'' then 4
      else if ty = ''construction'' then 3
      else if ty = ''pothole'' then 2
      else if ty = ''portal'' then 1
      else if ty = ''riskArea'' then 5
      else 0)"

text \<open>The body of the \<open>forEach\<close> of \<open>filterHazardsByRoute\<close>: what is pushed for a hazard.\<close>

definition routeHazardOf :: "point list \<Rightarrow> real \<Rightarrow> hazard \<Rightarrow> route_hazard option" where
  "routeHazardOf routeCoords bufferMeters h =
     (case geometry h of
        Point lng' lat' \<Rightarrow>
          (let minDistance = getMinDistanceToRoute \<lparr>lat = lat', lng = lng'\<rparr> routeCoords
           in if js_le minDistance (Fin bufferMeters)
              then Some \<lparr>rh_hazard = h, distanceToRoute = minDistance\<rparr> else None)
      | Polygon ring \<Rightarrow>
          if polygonIntersectsRouteBuffer ring routeCoords bufferMeters
          then Some \<lparr>rh_hazard = h, distanceToRoute = Fin 0\<rparr> else None
      | OtherGeometry n \<Rightarrow> None)"

definition compareRouteHazards :: "route_hazard \<Rightarrow> route_hazard \<Rightarrow> jsnum" where
  "compareRouteHazards a b =
     (let priorityA = hazardPriority (hazard_type (rh_hazard a));
          priorityB = hazardPriority (hazard_type (rh_hazard b))
      in if priorityA \<noteq> priorityB then Fin (priorityB - priorityA)
         else js_sub (distanceToRoute a) (distanceToRoute b))"

text \<open>\<open>filterHazardsByRoute(route, bufferMeters)\<close>; \<open>None\<close> is a \<open>null\<close> route.\<close>

definition filterHazardsByRoute :: "hazard_store \<Rightarrow> route option \<Rightarrow> real \<Rightarrow> route_hazard list" where
  "filterHazardsByRoute st r bufferMeters =
     (case r of
        None \<Rightarrow> []
      | Some rt \<Rightarrow>
          if length (coordinates rt) < 2 then []
          else jsSort compareRouteHazards
                 (List.map_filter (routeHazardOf (coordinates rt) bufferMeters) (hazards st)))"

text \<open>The body of the \<open>forEach\<close> of \<open>getUpcomingHazards\<close>.\<close>

definition upcomingOf :: "point \<Rightarrow> real \<Rightarrow> route_hazard \<Rightarrow> upcoming_hazard option" where
  "upcomingOf currentPosition lookAheadMeters rh =
     (case geometry (rh_hazard rh) of
        Point lng' lat' \<Rightarrow>
          (let distanceFromUser = haversineDistance currentPosition \<lparr>lat = lat', lng = lng'\<rparr>
           in if distanceFromUser \<le> lookAheadMeters
              then Some \<lparr>uh_hazard = rh, distanceFromUser = distanceFromUser\<rparr> else None)
      | _ \<Rightarrow> None)"

text \<open>\<open>getUpcomingHazards(currentPosition, route, lookAheadMeters)\<close>.\<close>

definition getUpcomingHazards :: "hazard_store \<Rightarrow> point \<Rightarrow> route option \<Rightarrow> real
    \<Rightarrow> upcoming_hazard list" where
  "getUpcomingHazards st currentPosition r lookAheadMeters =
     (case r of
        None \<Rightarrow> []
      | Some rt \<Rightarrow>
          jsSort (\<lambda>a b. Fin (distanceFromUser a - distanceFromUser b))
            (List.map_filter (upcomingOf currentPosition lookAheadMeters)
               (filterHazardsByRoute st (Some rt) 50)))"

text \<open>
  The second timer of \<open>startSimulation\<close>, run at the instant \<open>now\<close>: it keeps a hazard
  updated after \<open>now - 5 * 60 * 1000\<close> or whose id starts with \<open>risk-\<close>.
\<close>

definition startsWith :: "string \<Rightarrow> string \<Rightarrow> bool" where
  "startsWith s p = (take (length p) s = p)"

definition expirySweep :: "int \<Rightarrow> hazard_store \<Rightarrow> hazard_store" where
  "expirySweep now st =
     (let fiveMinutesAgo = now - 5 * 60 * 1000
      in st\<lparr> hazards := filter (\<lambda>h. updatedAt h > fiveMinutesAgo
                                     \<or> startsWith (hazard_id h) ''risk-'')
                           (hazards st) \<rparr>)"

section \<open>The routing service\<close>

text \<open>
  \<open>SAFETY_WEIGHTS\<close> is an object literal, so a lookup by name also finds what it inherits
  from \<open>Object.prototype\<close>: these are the names of its standard members.
\<close>

definition objectPrototypeMembers :: "string list" where
  "objectPrototypeMembers =
     [''constructor'', ''__defineGetter__'', ''__defineSetter__'', ''hasOwnProperty'',
      ''__lookupGetter__'', ''__lookupSetter__'', ''isPrototypeOf'', ''propertyIsEnumerable'',
      ''toString'', ''valueOf'', ''__proto__'', ''toLocaleString'']"

text \<open>
  \<open>SAFETY_WEIGHTS[hazard.type] || 5\<close>, as the number it is in the product that follows.
  For an inherited name the lookup gives a function (for \<open>__proto__\<close> the prototype
  object): it is truthy, so \<open>5\<close> is not taken, and as a number it is \<open>NaN\<close>.
\<close>

definition safetyWeight :: "string \<Rightarrow> jsnum" where
  "safetyWeight ty =
     (if ty = ''riskArea'' then Fin 50
      else if ty = ''accident'' then Fin 30
      else if ty = ''construction'' then Fin 20
      else if ty = ''pothole'' then Fin 10
      else if ty = ''portal'' then Fin 5
      else if ty \<in> set objectPrototypeMembers then NaN
      else Fin 5)"

definition HAZARD_BUFFER_METERS :: real where
  "HAZARD_BUFFER_METERS = 100"

text \<open>The local functions \<open>orientation\<close> and \<open>onSegment\<close> of \<open>lineSegmentsIntersect\<close>.\<close>

definition orientation :: "point \<Rightarrow> point \<Rightarrow> point \<Rightarrow> nat" where
  "orientation p q r =
     (let val = (lng q - lng p) * (lat r - lat q) - (lat q - lat p) * (lng r - lng q)
      in if val = 0 then 0 else if val > 0 then 1 else 2)"

definition onSegment :: "point \<Rightarrow> point \<Rightarrow> point \<Rightarrow> bool" where
  "onSegment p q r =
     (lng q \<le> max (lng p) (lng r) \<and> lng q \<ge> min (lng p) (lng r) \<and>
      lat q \<le> max (lat p) (lat r) \<and> lat q \<ge> min (lat p) (lat r))"

definition lineSegmentsIntersect :: "point \<Rightarrow> point \<Rightarrow> point \<Rightarrow> point \<Rightarrow> bool" where
  "lineSegmentsIntersect p1 q1 p2 q2 =
     (let o1 = orientation p1 q1 p2;
          o2 = orientation p1 q1 q2;
          o3 = orientation p2 q2 p1;
          o4 = orientation p2 q2 q1
      in if o1 \<noteq> o2 \<and> o3 \<noteq> o4 then True
         else if o1 = 0 \<and> onSegment p1 p2 q1 then True
         else if o2 = 0 \<and> onSegment p1 q2 q1 then True
         else if o3 = 0 \<and> onSegment p2 p1 q2 then True
         else if o4 = 0 \<and> onSegment p2 q1 q2 then True
         else False)"

text \<open>
  \<open>routeIntersectsPolygon\<close>: the edges are \<open>(polygon[i], polygon[(i + 1) % length])\<close>.
\<close>

definition polygonEdges :: "point list \<Rightarrow> (point \<times> point) list" where
  "polygonEdges polygon = zip polygon (rotate1 polygon)"

definition routeIntersectsPolygon :: "point \<Rightarrow> point \<Rightarrow> point list \<Rightarrow> bool" where
  "routeIntersectsPolygon segmentStart segmentEnd polygon =
     (if pointInPolygon segmentStart polygon \<or> pointInPolygon segmentEnd polygon then True
      else list_ex (\<lambda>(polyStart, polyEnd).
                      lineSegmentsIntersect segmentStart segmentEnd polyStart polyEnd)
             (polygonEdges polygon))"

text \<open>The body of the \<open>forEach\<close> of \<open>calculateSafetyScore\<close>: the penalty after one hazard.\<close>

definition addPenalty :: "point list \<Rightarrow> jsnum \<Rightarrow> hazard \<Rightarrow> jsnum" where
  "addPenalty routeCoords totalPenalty h =
     (case geometry h of
        Polygon ring \<Rightarrow>
          if hazard_type h = ''riskArea''
          then foldl (\<lambda>total (segmentStart, segmentEnd).
                        if routeIntersectsPolygon segmentStart segmentEnd (ringPoints ring)
                        then js_add total (safetyWeight ''riskArea'') else total)
                 totalPenalty (segments routeCoords)
          else totalPenalty
      | Point lng' lat' \<Rightarrow>
          (let minDistance = getMinDistanceToRoute \<lparr>lat = lat', lng = lng'\<rparr> routeCoords
           in if js_le minDistance (Fin HAZARD_BUFFER_METERS)
              then (let weight = safetyWeight (hazard_type h);
                        proximityMultiplier =
                          js_sub (Fin 1) (js_div minDistance (Fin HAZARD_BUFFER_METERS))
                    in js_add totalPenalty (js_mul weight proximityMultiplier))
              else totalPenalty)
      | OtherGeometry n \<Rightarrow> totalPenalty)"

definition calculateSafetyScore :: "route \<Rightarrow> hazard list \<Rightarrow> jsnum" where
  "calculateSafetyScore r hs = foldl (addPenalty (coordinates r)) (Fin 0) hs"

text \<open>
  \<open>calculateBearing\<close>: the argument of \<open>% 360\<close> is at least 180, where the remainder is
  \<open>v - 360 * floor (v / 360)\<close>.
\<close>

definition calculateBearing :: "point \<Rightarrow> point \<Rightarrow> real" where
  "calculateBearing start end' =
     (let dLng = (lng end' - lng start) * pi / 180;
          lat1 = lat start * pi / 180;
          lat2 = lat end' * pi / 180;
          y = sin dLng * cos lat2;
          x = cos lat1 * sin lat2 - sin lat1 * cos lat2 * cos dLng;
          v = atan2 y x * 180 / pi + 360
      in v - 360 * of_int \<lfloor>v / 360\<rfloor>)"

definition bearingToDirection :: "real \<Rightarrow> string" where
  "bearingToDirection bearing =
     (let directions = [''N'', ''NE'', ''E'', ''SE'', ''S'', ''SW'', ''W'', ''NW''];
          index = nat (\<lfloor>bearing / 45 + 1 / 2\<rfloor> mod 8)
      in directions ! index)"

definition interpolatePoint :: "point \<Rightarrow> point \<Rightarrow> real \<Rightarrow> point" where
  "interpolatePoint start end' fraction =
     \<lparr> lat = lat start + (lat end' - lat start) * fraction,
       lng = lng start + (lng end' - lng start) * fraction \<rparr>"

definition createFallbackRoute :: "point \<Rightarrow> point \<Rightarrow> route" where
  "createFallbackRoute start end' =
     (let dist = haversineDistance start end';
          bearing = calculateBearing start end';
          numWaypoints = max 2 (nat \<lfloor>dist / 1000\<rfloor>);
          waypoints = [start]
            @ map (\<lambda>i. interpolatePoint start end' (real i / real numWaypoints))
                [1 ..< numWaypoints]
            @ [end']
      in \<lparr> route_id = ''fallback-route'',
           coordinates = waypoints,
           distance = dist,
           duration = dist / 13.89,
           instructions =
             [\<lparr> s_instruction =
                   Some (''Head '' @ bearingToDirection bearing @ '' toward destination''),
                 s_distance = Some dist,
                 s_type = None \<rparr>],
           safetyScore = Fin 0 \<rparr>)"

text \<open>
  What the provider answers. \<open>Failed\<close> is every way into the \<open>catch\<close> of
  \<open>getRouteOptions\<close>: \<open>fetch\<close> rejecting, a status that is not ok, a body that is not
  JSON. \<open>Replied None\<close> is a body without \<open>features\<close>.
\<close>

record ors_segment =
  seg_distance :: "real option"
  seg_duration :: "real option"
  seg_steps :: "step list option"

record ors_feature =
  f_coordinates :: "(real \<times> real) list"
  f_segments :: "ors_segment list option"

datatype ors_reply = Failed | Replied "ors_feature list option"

text \<open>\<open>props.segments?.[0]\<close>.\<close>

definition firstSegment :: "ors_feature \<Rightarrow> ors_segment option" where
  "firstSegment f = (case f_segments f of Some (sg # rest) \<Rightarrow> Some sg | _ \<Rightarrow> None)"

definition parseFeature :: "nat \<Rightarrow> ors_feature \<Rightarrow> route" where
  "parseFeature index f =
     \<lparr> route_id = ''route-'' @ showNat index,
       coordinates = ringPoints (f_coordinates f),
       distance = numOr (case firstSegment f of Some sg \<Rightarrow> seg_distance sg | None \<Rightarrow> None) 0,
       duration = numOr (case firstSegment f of Some sg \<Rightarrow> seg_duration sg | None \<Rightarrow> None) 0,
       instructions = (case firstSegment f of
                         Some sg \<Rightarrow> (case seg_steps sg of Some st \<Rightarrow> st | None \<Rightarrow> [])
                       | None \<Rightarrow> []),
       safetyScore = Fin 0 \<rparr>"

definition parseORSResponse :: "ors_feature list option \<Rightarrow> route list" where
  "parseORSResponse data =
     (case data of
        None \<Rightarrow> []
      | Some features \<Rightarrow> map (\<lambda>(index, f). parseFeature index f) (enumerate 0 features))"

text \<open>
  \<open>cachedRoutes\<close>: the key is the text \<open>lat,lng-lat,lng\<close> of the two end points, modelled
  by the end points themselves.
\<close>

type_synonym route_cache = "point \<times> point \<Rightarrow> route list option"

text \<open>
  \<open>getRouteOptions\<close> after a cache miss, once the provider has answered: the routes, and
  whether that array was stored in the cache.
\<close>

definition fetchedRoutes :: "point \<Rightarrow> point \<Rightarrow> ors_reply \<Rightarrow> route list \<times> bool" where
  "fetchedRoutes start end' reply =
     (case reply of
        Failed \<Rightarrow> ([createFallbackRoute start end'], False)
      | Replied data \<Rightarrow>
          (let routes = parseORSResponse data;
               ensuredRoutes = (if routes \<noteq> [] then routes
                                else [createFallbackRoute start end'])
           in (ensuredRoutes, True)))"

text \<open>The comparator of \<open>routes.sort\<close> in \<open>getBestRoute\<close>.\<close>

definition compareRoutes :: "route \<Rightarrow> route \<Rightarrow> jsnum" where
  "compareRoutes a b =
     (if js_lt (js_abs (js_sub (safetyScore a) (safetyScore b))) (Fin 5)
      then Fin (distance a - distance b)
      else js_sub (safetyScore a) (safetyScore b))"

text \<open>
  The part of \<open>getBestRoute\<close> after \<open>getRouteOptions\<close>: every route is given its score, the
  array is sorted in place, and \<open>routes[0]\<close> is returned (\<open>None\<close> for \<open>undefined\<close>).
\<close>

definition scoreAndSort :: "hazard list \<Rightarrow> route list \<Rightarrow> route list" where
  "scoreAndSort hs routes =
     jsSort compareRoutes (map (\<lambda>r. r\<lparr>safetyScore := calculateSafetyScore r hs\<rparr>) routes)"

definition firstRoute :: "route list \<Rightarrow> route option" where
  "firstRoute routes = (case routes of [] \<Rightarrow> None | r # rest \<Rightarrow> Some r)"

text \<open>
  \<open>getBestRoute(start, end, hazards)\<close> with the cache before and after, and the provider's
  answer, which is only asked for on a cache miss. The array that is scored and sorted in
  place is the cached one whenever it is cached.
\<close>

definition bestOfCached :: "point \<Rightarrow> point \<Rightarrow> hazard list \<Rightarrow> route list \<Rightarrow> route_cache
    \<Rightarrow> route option \<times> route_cache" where
  "bestOfCached start end' hs cached cache =
     (let routes = scoreAndSort hs cached
      in (firstRoute routes, cache((start, end') \<mapsto> routes)))"

definition bestOfFetched :: "point \<Rightarrow> point \<Rightarrow> hazard list \<Rightarrow> ors_reply \<Rightarrow> route_cache
    \<Rightarrow> route option \<times> route_cache" where
  "bestOfFetched start end' hs reply cache =
     (case fetchedRoutes start end' reply of
        (fetched, stored) \<Rightarrow>
          (let routes = scoreAndSort hs fetched
           in (firstRoute routes,
               if stored then cache((start, end') \<mapsto> routes) else cache)))"

definition getBestRoute :: "point \<Rightarrow> point \<Rightarrow> hazard list \<Rightarrow> ors_reply \<Rightarrow> route_cache
    \<Rightarrow> route option \<times> route_cache" where
  "getBestRoute start end' hs reply cache =
     (case cache (start, end') of
        Some cached \<Rightarrow> bestOfCached start end' hs cached cache
      | None \<Rightarrow> bestOfFetched start end' hs reply cache)"

section \<open>The navigation controller\<close>

record nav_settings =
  routeDeviationThreshold :: real
  rerouteDelay :: int
  positionUpdateInterval :: int
  hazardLookAhead :: real
  autoRecenter :: bool

record next_turn =
  nt_instruction :: string
  nt_distance :: real
  nt_type :: string

text \<open>\<open>navigationStats\<close>; the constructor's object has no \<open>routeProgress\<close> yet.\<close>

record navigation_stats =
  distanceRemaining :: jsnum
  timeRemaining :: jsnum
  nextTurn :: "next_turn option"
  upcomingHazards :: "upcoming_hazard list"
  routeProgress :: "jsnum option"

datatype reroute_reason = Deviation | Manual

text \<open>The calls of \<open>notifyListeners\<close>, with their payload.\<close>

datatype nav_event =
    NavigationStarted route "point option"
  | NavigationStopped
  | Rerouting
  | RouteUpdated route reroute_reason
  | RerouteError
  | DestinationReached "point option" "point option"
  | PositionUpdated point "point option" bool navigation_stats

text \<open>
  The three \<open>async\<close> methods of the controller each wait once, for \<open>getBestRoute\<close>. What
  remains to be done when the route arrives is kept with the request:
  \<^item> \<open>AfterStart\<close>: the rest of \<open>startNavigation\<close>;
  \<^item> \<open>AfterDeviation\<close>: the rest of \<open>handleRouteDeviation\<close> and then of the
    \<open>handlePositionUpdate\<close> that awaits it, with its locals \<open>newPosition\<close>,
    \<open>previousPosition\<close> and \<open>isOffRoute\<close>;
  \<^item> \<open>AfterManual\<close>: the rest of \<open>forceReroute\<close>.
\<close>

datatype continuation =
    AfterStart
  | AfterDeviation point "point option" bool
  | AfterManual

record route_request =
  rq_start :: point
  rq_end :: point
  rq_hazards :: "hazard list"
  rq_then :: continuation

text \<open>
  The controller's fields, together with the two singletons it calls (the hazard store and
  the routing service's cache), the log of \<open>notifyListeners\<close>, the requests to the routing
  provider that have not been answered yet, and the errors no handler caught. The
  geolocation watch is the environment: it is what calls \<open>handlePositionUpdate\<close>.
\<close>

record system =
  isNavigating :: bool
  currentRoute :: "route option"
  destination :: "point option"
  currentPosition :: "point option"
  navigationStats :: navigation_stats
  settings :: nav_settings
  lastRerouteTime :: int
  isRerouting :: bool
  notified :: "nav_event list"
  hazardService :: hazard_store
  cachedRoutes :: route_cache
  inFlight :: "route_request list"
  uncaught :: "string list"

text \<open>The constructor, over a given hazard store.\<close>

definition initialSystem :: "hazard_store \<Rightarrow> system" where
  "initialSystem st =
     \<lparr> isNavigating = False,
       currentRoute = None,
       destination = None,
       currentPosition = None,
       navigationStats = \<lparr> distanceRemaining = Fin 0, timeRemaining = Fin 0, nextTurn = None,
                            upcomingHazards = [], routeProgress = None \<rparr>,
       settings = \<lparr> routeDeviationThreshold = 100, rerouteDelay = 5000,
                     positionUpdateInterval = 2000, hazardLookAhead = 1000,
                     autoRecenter = True \<rparr>,
       lastRerouteTime = 0,
       isRerouting = False,
       notified = [],
       hazardService = st,
       cachedRoutes = Map.empty,
       inFlight = [],
       uncaught = [] \<rparr>"

definition notifyListeners :: "nav_event \<Rightarrow> system \<Rightarrow> system" where
  "notifyListeners e w = w\<lparr> notified := notified w @ [e] \<rparr>"

text \<open>\<open>findClosestPointOnRoute(position, routeCoords)\<close>.\<close>

record closest_point =
  cl_point :: "point option"
  cl_index :: nat
  cl_distance :: jsnum

definition findClosestPointOnRoute :: "point \<Rightarrow> point list \<Rightarrow> closest_point" where
  "findClosestPointOnRoute position routeCoords =
     foldl (\<lambda>c (i, q).
              let d = Fin (haversineDistance position q)
              in if js_lt d (cl_distance c)
                 then \<lparr> cl_point = Some q, cl_index = i, cl_distance = d \<rparr> else c)
       \<lparr> cl_point = (case routeCoords of [] \<Rightarrow> None | q # rest \<Rightarrow> Some q),
         cl_index = 0, cl_distance = PosInf \<rparr>
       (enumerate 0 routeCoords)"

text \<open>\<open>findNextTurn(currentIndex)\<close>.\<close>

definition turnOf :: "step \<Rightarrow> next_turn" where
  "turnOf ins =
     \<lparr> nt_instruction = strOr (s_instruction ins) ''Continue straight'',
       nt_distance = (case s_distance ins of
                        Some d \<Rightarrow> of_int \<lfloor>d + 1 / 2\<rfloor> | None \<Rightarrow> 0),
       nt_type = strOr (s_type ins) ''straight'' \<rparr>"

definition findNextTurn :: "route \<Rightarrow> nat \<Rightarrow> next_turn option" where
  "findNextTurn r currentIndex =
     (if currentIndex \<ge> length (instructions r) then None
      else (case filter (\<lambda>ins. case s_distance ins of Some d \<Rightarrow> d > 0 | None \<Rightarrow> False)
                   (instructions r) of
              [] \<Rightarrow> None
            | ins # rest \<Rightarrow> Some (turnOf ins)))"

text \<open>\<open>updateNavigationStats()\<close>.\<close>

definition remainingDistanceOf :: "closest_point \<Rightarrow> point list \<Rightarrow> jsnum" where
  "remainingDistanceOf closest routeCoords =
     js_add (Fin (sum_list (map (\<lambda>(a, b). haversineDistance a b)
                              (drop (cl_index closest) (segments routeCoords)))))
       (cl_distance closest)"

definition updateNavigationStats :: "system \<Rightarrow> system" where
  "updateNavigationStats w =
     (case (currentRoute w, currentPosition w) of
        (Some r, Some pos) \<Rightarrow>
          (let routeCoords = coordinates r;
               closest = findClosestPointOnRoute pos routeCoords;
               remainingDistance = remainingDistanceOf closest routeCoords;
               averageSpeedMs = Fin 8.33;
               remainingTime = js_div remainingDistance averageSpeedMs;
               nextTurn' = findNextTurn r (cl_index closest);
               upcoming = getUpcomingHazards (hazardService w) pos (Some r)
                            (hazardLookAhead (settings w))
           in w\<lparr> navigationStats :=
                   \<lparr> distanceRemaining = js_round remainingDistance,
                     timeRemaining = js_round remainingTime,
                     nextTurn = nextTurn',
                     upcomingHazards = upcoming,
                     routeProgress =
                       Some (js_max (Fin 0)
                               (js_min (Fin 1)
                                  (js_sub (Fin 1)
                                     (js_div remainingDistance (Fin (distance r)))))) \<rparr> \<rparr>)
      | _ \<Rightarrow> w)"

text \<open>\<open>stopNavigation()\<close> and \<open>handleDestinationReached()\<close>.\<close>

definition stopNavigation :: "system \<Rightarrow> system" where
  "stopNavigation w =
     notifyListeners NavigationStopped
       (w\<lparr> isNavigating := False, currentRoute := None, destination := None \<rparr>)"

definition handleDestinationReached :: "system \<Rightarrow> system" where
  "handleDestinationReached w =
     stopNavigation (notifyListeners (DestinationReached (destination w) (currentPosition w)) w)"

text \<open>
  \<open>handlePositionUpdate\<close> from \<open>this.updateNavigationStats()\<close> to its end. With no
  destination left, \<open>haversineDistance(newPosition, null)\<close> throws.
\<close>

definition finishPositionUpdate :: "point \<Rightarrow> point option \<Rightarrow> bool \<Rightarrow> system \<Rightarrow> system" where
  "finishPositionUpdate newPosition previousPosition isOffRoute w =
     (let w1 = updateNavigationStats w
      in case destination w1 of
           None \<Rightarrow> w1\<lparr> uncaught := uncaught w1 @ [''TypeError''] \<rparr>
         | Some dest \<Rightarrow>
             if haversineDistance newPosition dest < 50 then handleDestinationReached w1
             else notifyListeners
                    (PositionUpdated newPosition previousPosition isOffRoute (navigationStats w1))
                    w1)"

text \<open>
  The \<open>if (newRoute) {...}\<close> of \<open>handleRouteDeviation\<close> and \<open>forceReroute\<close>, and the
  \<open>finally\<close> that follows it.
\<close>

definition applyReroute :: "reroute_reason \<Rightarrow> route option \<Rightarrow> system \<Rightarrow> system" where
  "applyReroute reason newRoute w =
     (let w1 = (case newRoute of
                  Some r \<Rightarrow> notifyListeners (RouteUpdated r reason)
                              (updateNavigationStats (w\<lparr> currentRoute := Some r \<rparr>))
                | None \<Rightarrow> w)
      in w1\<lparr> isRerouting := False \<rparr>)"

text \<open>What runs when the awaited \<open>getBestRoute\<close> has returned \<open>newRoute\<close>.\<close>

fun afterRoute :: "continuation \<Rightarrow> route option \<Rightarrow> system \<Rightarrow> system" where
  "afterRoute AfterStart newRoute w =
     (case newRoute of
        None \<Rightarrow> w\<lparr> isNavigating := False \<rparr>
      | Some r \<Rightarrow> notifyListeners (NavigationStarted r (destination w))
                    (updateNavigationStats (w\<lparr> currentRoute := Some r \<rparr>)))"
| "afterRoute (AfterDeviation newPosition previousPosition isOffRoute) newRoute w =
     finishPositionUpdate newPosition previousPosition isOffRoute
       (applyReroute Deviation newRoute w)"
| "afterRoute AfterManual newRoute w = applyReroute Manual newRoute w"

text \<open>
  \<open>await RoutingService.getBestRoute(start, end, hazards)\<close>. On a cache hit nothing is
  fetched and the caller resumes before any other callback runs. On a miss the request
  is in flight until the provider answers; it is scored against the hazards it was
  called with.
\<close>

definition requestRoute :: "point \<Rightarrow> point \<Rightarrow> continuation \<Rightarrow> system \<Rightarrow> system" where
  "requestRoute start end' k w =
     (let hs = hazards (hazardService w)
      in case cachedRoutes w (start, end') of
           Some cached \<Rightarrow>
             (case bestOfCached start end' hs cached (cachedRoutes w) of
                (newRoute, cache') \<Rightarrow> afterRoute k newRoute (w\<lparr> cachedRoutes := cache' \<rparr>))
         | None \<Rightarrow>
             w\<lparr> inFlight := inFlight w @
                   [\<lparr> rq_start = start, rq_end = end', rq_hazards = hs, rq_then = k \<rparr>] \<rparr>)"

text \<open>The provider answers the \<open>i\<close>-th request in flight.\<close>

definition routeReply :: "nat \<Rightarrow> ors_reply \<Rightarrow> system \<Rightarrow> system" where
  "routeReply i reply w =
     (if i < length (inFlight w)
      then (let rq = inFlight w ! i;
                w1 = w\<lparr> inFlight := take i (inFlight w) @ drop (Suc i) (inFlight w) \<rparr>
            in case bestOfFetched (rq_start rq) (rq_end rq) (rq_hazards rq) reply
                      (cachedRoutes w1) of
                 (newRoute, cache') \<Rightarrow>
                   afterRoute (rq_then rq) newRoute (w1\<lparr> cachedRoutes := cache' \<rparr>))
      else w)"

text \<open>\<open>startNavigation(destination, currentPosition)\<close> up to its \<open>await\<close>.\<close>

definition startNavigation :: "point \<Rightarrow> point \<Rightarrow> system \<Rightarrow> system" where
  "startNavigation dest pos w =
     (let w0 = (if isNavigating w then stopNavigation w else w);
          w1 = w0\<lparr> destination := Some dest, currentPosition := Some pos,
                   isNavigating := True, isRerouting := False \<rparr>
      in requestRoute pos dest AfterStart w1)"

text \<open>
  \<open>handleRouteDeviation()\<close>, called at the instant \<open>now\<close> from a \<open>handlePositionUpdate\<close>
  that goes on with \<open>k\<close>. Without a position or a destination \<open>getBestRoute\<close> throws
  inside the \<open>try\<close>.
\<close>

definition handleRouteDeviation :: "int \<Rightarrow> point \<Rightarrow> point option \<Rightarrow> bool \<Rightarrow> system \<Rightarrow> system" where
  "handleRouteDeviation now newPosition previousPosition isOffRoute w =
     (if now - lastRerouteTime w < rerouteDelay (settings w)
      then finishPositionUpdate newPosition previousPosition isOffRoute w
      else (let w1 = notifyListeners Rerouting
                       (w\<lparr> isRerouting := True, lastRerouteTime := now \<rparr>)
            in case (currentPosition w1, destination w1) of
                 (Some start, Some end') \<Rightarrow>
                   requestRoute start end'
                     (AfterDeviation newPosition previousPosition isOffRoute) w1
               | _ \<Rightarrow>
                   finishPositionUpdate newPosition previousPosition isOffRoute
                     ((notifyListeners RerouteError w1)\<lparr> isRerouting := False \<rparr>)))"

text \<open>\<open>handlePositionUpdate(newPosition)\<close>, called at the instant \<open>now\<close>.\<close>

definition handlePositionUpdate :: "int \<Rightarrow> point \<Rightarrow> system \<Rightarrow> system" where
  "handlePositionUpdate now newPosition w =
     (case currentRoute w of
        None \<Rightarrow> w
      | Some r \<Rightarrow>
          if \<not> isNavigating w then w
          else (let previousPosition = currentPosition w;
                    w1 = w\<lparr> currentPosition := Some newPosition \<rparr>;
                    closest = findClosestPointOnRoute newPosition (coordinates r);
                    isOffRoute = js_lt (Fin (routeDeviationThreshold (settings w1)))
                                   (cl_distance closest)
                in if isOffRoute \<and> \<not> isRerouting w1
                   then handleRouteDeviation now newPosition previousPosition isOffRoute w1
                   else finishPositionUpdate newPosition previousPosition isOffRoute w1))"

text \<open>\<open>forceReroute()\<close> up to its \<open>await\<close>.\<close>

definition forceReroute :: "system \<Rightarrow> system" where
  "forceReroute w =
     (case (isNavigating w, currentPosition w, destination w) of
        (True, Some pos, Some dest) \<Rightarrow>
          requestRoute pos dest AfterManual (w\<lparr> isRerouting := True \<rparr>)
      | _ \<Rightarrow> w)"

section \<open>Speed from the position stream\<close>

text \<open>
  The speed part of the \<open>watchPosition\<close> callback in \<open>startGeolocation\<close> of the component
  that \<open>App\<close> mounts (\<open>SmartRoadSafetyWithRouting\<close>). \<open>sm_speed\<close> is \<open>coords.speed\<close>, with
  \<open>None\<close> for \<open>null\<close>, \<open>undefined\<close> and \<open>NaN\<close>; \<open>last_position\<close> is \<open>lastPosRef.current\<close>.
\<close>

record position_sample =
  sm_position :: point
  sm_speed :: "real option"
  sm_timestamp :: real

record last_position =
  lp_p :: point
  lp_ts :: real
  lp_speed :: "real option"

definition deviceSpeed :: "position_sample \<Rightarrow> real option" where
  "deviceSpeed pos = (case sm_speed pos of
                        Some v \<Rightarrow> if v \<ge> 0 then Some v else None
                      | None \<Rightarrow> None)"

text \<open>\<open>dt\<close>, the seconds since the previous sample.\<close>

definition elapsedSeconds :: "position_sample \<Rightarrow> last_position \<Rightarrow> real" where
  "elapsedSeconds pos l = (sm_timestamp pos - lp_ts l) / 1000"

definition speedMS :: "position_sample \<Rightarrow> last_position option \<Rightarrow> real option" where
  "speedMS pos lastPos =
     (case deviceSpeed pos of
        Some v \<Rightarrow> Some v
      | None \<Rightarrow>
          (case lastPos of
             None \<Rightarrow> None
           | Some l \<Rightarrow>
               (let dt = elapsedSeconds pos l
                in if dt > 0.5 \<and> dt < 10
                   then (let d = haversineDistance (lp_p l) (sm_position pos);
                             instantaneous = d / dt
                         in case lp_speed l of
                              Some previous \<Rightarrow> Some (previous * 0.7 + instantaneous * 0.3)
                            | None \<Rightarrow> Some instantaneous)
                   else Some (numOr (lp_speed l) 0))))"

text \<open>The new \<open>lastPosRef.current\<close> and the speed shown, in km/h.\<close>

definition trackSpeed :: "position_sample \<Rightarrow> last_position option \<Rightarrow> last_position \<times> real" where
  "trackSpeed pos lastPos =
     (let sp = speedMS pos lastPos
      in (\<lparr> lp_p = sm_position pos, lp_ts = sm_timestamp pos, lp_speed = sp \<rparr>,
          clamp (of_int \<lfloor>(numOr sp 0 * 3.6) * 10 + 1 / 2\<rfloor> / 10) 0 120))"

text \<open>
  The older component \<open>SmartRoadSafety\<close>, which \<open>App\<close> does not mount, has an earlier
  form of the same callback: any speed that is a number is taken, nothing is smoothed,
  and the previous speed is not kept.
\<close>

definition speedMS_legacy :: "position_sample \<Rightarrow> last_position option \<Rightarrow> real option" where
  "speedMS_legacy pos lastPos =
     (case sm_speed pos of
        Some v \<Rightarrow> Some v
      | None \<Rightarrow>
          (case lastPos of
             None \<Rightarrow> None
           | Some l \<Rightarrow>
               (let dt = elapsedSeconds pos l
                in if dt > 0
                   then Some (haversineDistance (lp_p l) (sm_position pos) / dt)
                   else None)))"

section \<open>Concrete inputs\<close>

definition p0 :: point where
  "p0 = \<lparr>lat = 0, lng = 0\<rparr>"

definition pointHazard :: hazard where
  "pointHazard = \<lparr> hazard_id = ''acc-1'', hazard_type = ''accident'', geometry = Point 0 0,
     severity = 3, description = ''Multi-vehicle collision'', updatedAt = 0 \<rparr>"

definition zoneHazard :: hazard where
  "zoneHazard = \<lparr> hazard_id = ''risk-1'', hazard_type = ''riskArea'',
     geometry = Polygon [(-1, -1), (1, -1), (1, 1), (-1, 1), (-1, -1)],
     severity = 3, description = ''High accident zone'', updatedAt = 0 \<rparr>"

definition shortRoute :: route where
  "shortRoute = \<lparr> route_id = ''route-0'', coordinates = [p0, p0], distance = 0, duration = 0,
     instructions = [], safetyScore = Fin 0 \<rparr>"

definition twoHazards :: hazard_store where
  "twoHazards = \<lparr> hazards = [pointHazard, zoneHazard], emitted = [] \<rparr>"

definition accidentDraft :: hazard_draft where
  "accidentDraft = \<lparr> d_id = None, d_type = Some ''accident'', d_geometry = Some (Point 0 0),
     d_properties = Some \<lparr> p_severity = Some 2, p_description = None \<rparr> \<rparr>"

definition zoneDraft :: hazard_draft where
  "zoneDraft = \<lparr> d_id = None, d_type = Some ''riskArea'',
     d_geometry = Some (Polygon [(-500, -500), (500, -500), (500, 500), (-500, -500)]),
     d_properties = Some \<lparr> p_severity = None, p_description = None \<rparr> \<rparr>"

definition pFar :: point where
  "pFar = \<lparr>lat = 0, lng = 180\<rparr>"


definition emptyStore :: hazard_store where
  "emptyStore = \<lparr> hazards = [], emitted = [] \<rparr>"

text \<open>What \<open>addHazard\<close> makes of \<open>accidentDraft\<close> and \<open>zoneDraft\<close> at instant 0.\<close>

definition freshAccident :: hazard where
  "freshAccident = \<lparr> hazard_id = ''accident-0-k3x9'', hazard_type = ''accident'',
     geometry = Point 0 0, severity = 2, description = ''Reported accident'', updatedAt = 0 \<rparr>"

definition freshZone :: hazard where
  "freshZone = \<lparr> hazard_id = ''riskArea-0-k3x9'', hazard_type = ''riskArea'',
     geometry = Polygon [(-500, -500), (500, -500), (500, 500), (-500, -500)],
     severity = 1, description = ''Reported riskArea'', updatedAt = 0 \<rparr>"



definition constructorHazard :: hazard where
  "constructorHazard = \<lparr> hazard_id = ''constructor-0-k3x9'', hazard_type = ''constructor'',
     geometry = Point 0 0, severity = 1, description = ''Reported constructor'',
     updatedAt = 0 \<rparr>"

text \<open>
  Position samples taken at \<open>p0\<close>, and the sample before them, taken at \<open>pFar\<close> at
  instant 1000: two seconds before the first three, twenty seconds before \<open>staleSample\<close>.
\<close>

definition gpsSample :: position_sample where
  "gpsSample = \<lparr> sm_position = p0, sm_speed = Some 5, sm_timestamp = 3000 \<rparr>"

definition bareSample :: position_sample where
  "bareSample = \<lparr> sm_position = p0, sm_speed = None, sm_timestamp = 3000 \<rparr>"

definition negativeSample :: position_sample where
  "negativeSample = \<lparr> sm_position = p0, sm_speed = Some (-1), sm_timestamp = 3000 \<rparr>"

definition staleSample :: position_sample where
  "staleSample = \<lparr> sm_position = p0, sm_speed = Some (-1), sm_timestamp = 21000 \<rparr>"

definition staleBareSample :: position_sample where
  "staleBareSample = \<lparr> sm_position = p0, sm_speed = None, sm_timestamp = 21000 \<rparr>"

definition lastFix :: last_position where
  "lastFix = \<lparr> lp_p = pFar, lp_ts = 1000, lp_speed = Some 10 \<rparr>"

definition firstFix :: last_position where
  "firstFix = \<lparr> lp_p = pFar, lp_ts = 1000, lp_speed = None \<rparr>"

definition stubFeature :: ors_feature where
  "stubFeature = \<lparr> f_coordinates = [(0, 0)], f_segments = None \<rparr>"

definition lineFeature :: ors_feature where
  "lineFeature = \<lparr> f_coordinates = [(0, 0), (180, 0)], f_segments = None \<rparr>"

definition twinFeature :: ors_feature where
  "twinFeature = \<lparr> f_coordinates = [(0, 0), (0, 0)], f_segments = None \<rparr>"

text \<open>
  A session under way: navigation was started at \<open>p0\<close> towards \<open>p0\<close> over an empty store
  and the provider answered with one route. Then the position \<open>pFar\<close> is reported at
  instant 10000.
\<close>

definition activeSystem :: system where
  "activeSystem =
     routeReply 0 (Replied (Some [twinFeature])) (startNavigation p0 p0 (initialSystem emptyStore))"

definition deviatedSystem :: system where
  "deviatedSystem = handlePositionUpdate 10000 pFar activeSystem"

section \<open>Notions of the specification\<close>

text \<open>
  The kinds of the specification and their weights, as it lists them: RiskArea 50,
  Accident 30, Construction 20, Pothole 10, Portal 5. Any other name is no kind.
\<close>

definition spec_kindWeight :: "string \<Rightarrow> real option" where
  "spec_kindWeight kind =
     (if kind = ''riskArea'' then Some 50
      else if kind = ''accident'' then Some 30
      else if kind = ''construction'' then Some 20
      else if kind = ''pothole'' then Some 10
      else if kind = ''portal'' then Some 5
      else None)"


text \<open>A list of candidate routes that is not empty and whose routes all have two coordinates or more.\<close>

definition longEnough :: "route list \<Rightarrow> bool" where
  "longEnough rs = (rs \<noteq> [] \<and> list_all (\<lambda>r. 2 \<le> length (coordinates r)) rs)"


text \<open>How many reroutes have begun: the \<open>rerouting\<close> notifications so far.\<close>

definition reroutesStarted :: "system \<Rightarrow> nat" where
  "reroutesStarted w = length (filter (\<lambda>e. e = Rerouting) (notified w))"

section \<open>Properties\<close>

subsection \<open>Helper facts\<close>

lemma haversineDistance_same: "haversineDistance a a = 0"
  by (simp add: haversineDistance_def toRad_def atan2_def)

lemma set_insertSorted: "set (insertSorted cmp x ys) = insert x (set ys)"
  by (induction ys) auto

lemma set_jsSort: "set (jsSort cmp xs) = set xs"
  by (induction xs) (simp_all add: jsSort_def set_insertSorted)

lemma length_insertSorted: "length (insertSorted cmp x ys) = Suc (length ys)"
  by (induction ys) auto

lemma length_jsSort: "length (jsSort cmp xs) = length xs"
  by (induction xs) (simp_all add: jsSort_def length_insertSorted)

lemma minDist_p0: "getMinDistanceToRoute p0 [p0, p0] = Fin 0"
  by (simp add: getMinDistanceToRoute_def segments_def pointToLineDistance_def
      haversineDistance_same js_min_def)

lemma haversineDistance_far: "haversineDistance pFar p0 = 6371000 * pi"
  by (simp add: haversineDistance_def toRad_def atan2_def pFar_def p0_def)


subsection \<open>Duplicate suppression\<close>

text \<open>
  C3. A Point draft \<open>b\<close> of the same kind as a stored Point hazard \<open>a\<close> less than 100 m
  away is rejected: \<open>addHazard\<close> returns \<open>null\<close>, the store is the same (nothing is merged
  into \<open>a\<close>) and no listener is notified.
\<close>

theorem addHazard_rejects_duplicate:
  assumes "a \<in> set (hazards st)"
    and "geometry a = Point lngA latA"
    and "d_geometry b = Some (Point lngB latB)"
    and "d_type b = Some (hazard_type a)"
    and "haversineDistance \<lparr>lat = latA, lng = lngA\<rparr> \<lparr>lat = latB, lng = lngB\<rparr> < 100"
  shows "addHazard now rnd b st = (None, st)"
proof -
  have "duplicateOf (hazard_type a) (Point lngB latB) a"
    using assms(2,5) by simp
  with assms(1) have "list_ex (duplicateOf (hazard_type a) (Point lngB latB)) (hazards st)"
    unfolding list_ex_iff by blast
  then show ?thesis
    using assms(3,4) by (simp add: addHazard_def split: option.splits)
qed

theorem addHazard_rejects_duplicate_witness:
  "pointHazard \<in> set (hazards twoHazards)
   \<and> geometry pointHazard = Point 0 0
   \<and> d_geometry accidentDraft = Some (Point 0 0)
   \<and> d_type accidentDraft = Some (hazard_type pointHazard)
   \<and> haversineDistance \<lparr>lat = 0, lng = 0\<rparr> \<lparr>lat = 0, lng = 0\<rparr> < 100
   \<and> addHazard 1000 ''k3x9'' accidentDraft twoHazards = (None, twoHazards)"
  using addHazard_rejects_duplicate [of pointHazard twoHazards 0 0 accidentDraft 0 0 1000 "''k3x9''"]
  by (simp add: pointHazard_def twoHazards_def accidentDraft_def haversineDistance_same)

subsection \<open>Polygons are stored unchecked\<close>

text \<open>
  C10. A draft with a Polygon geometry whose \<open>type\<close>, \<open>geometry\<close> and \<open>properties\<close> are
  present (for \<open>type\<close>, as the code tests it: not the empty string) is always accepted:
  the new hazard is appended to the store and announced as \<open>hazardAdded\<close>, whatever the
  ring's coordinates and whatever is stored already.
\<close>

theorem addHazard_accepts_polygon:
  assumes "d_type d = Some ty" and "ty \<noteq> []"
    and "d_geometry d = Some (Polygon ring)"
    and "d_properties d = Some props"
  shows "\<exists>h. addHazard now rnd d st =
            (Some h, st\<lparr> hazards := hazards st @ [h],
                          emitted := emitted st @ [(''hazardAdded'', h)] \<rparr>)
          \<and> geometry h = Polygon ring \<and> hazard_type h = ty"
  using assms by (simp add: addHazard_def list_ex_iff Let_def)

theorem addHazard_accepts_polygon_witness:
  "d_type zoneDraft = Some ''riskArea'' \<and> ''riskArea'' \<noteq> []
   \<and> d_geometry zoneDraft = Some (Polygon [(-500, -500), (500, -500), (500, 500), (-500, -500)])
   \<and> d_properties zoneDraft = Some \<lparr> p_severity = None, p_description = None \<rparr>
   \<and> (\<exists>h. addHazard 1000 ''k3x9'' zoneDraft twoHazards =
            (Some h, twoHazards\<lparr> hazards := hazards twoHazards @ [h],
                                  emitted := emitted twoHazards @ [(''hazardAdded'', h)] \<rparr>)
          \<and> geometry h = Polygon [(-500, -500), (500, -500), (500, 500), (-500, -500)]
          \<and> hazard_type h = ''riskArea'')"
  using addHazard_accepts_polygon [of zoneDraft "''riskArea''"
      "[(-500, -500), (500, -500), (500, 500), (-500, -500)]"
      "\<lparr> p_severity = None, p_description = None \<rparr>" 1000 "''k3x9''" twoHazards]
  by (simp add: zoneDraft_def)

subsection \<open>Upcoming hazards\<close>

lemma upcomingOf_Point:
  "upcomingOf pos la rh = Some u \<Longrightarrow> isPoint (geometry (rh_hazard (uh_hazard u)))"
  by (auto simp: upcomingOf_def Let_def split: geometry.splits if_splits)

text \<open>
  C9. Every element of the list that \<open>getUpcomingHazards\<close> returns has a Point geometry,
  for every store, position, route and look-ahead distance: a polygon never appears in
  it, even when \<open>filterHazardsByRoute\<close> lets it through.
\<close>

theorem getUpcomingHazards_only_points:
  "\<forall>u \<in> set (getUpcomingHazards st pos r lookAhead).
     isPoint (geometry (rh_hazard (uh_hazard u)))"
  by (auto simp: getUpcomingHazards_def set_jsSort List.map_filter_def
        split: option.splits dest: upcomingOf_Point)

lemma zone_on_route:
  "polygonIntersectsRouteBuffer [(-1, -1), (1, -1), (1, 1), (-1, 1), (-1, -1)] [p0, p0] 50"
  by (simp add: polygonIntersectsRouteBuffer_def ringPoints_def pointInPolygon_def
      previousVertices_def p0_def)

lemma routeHazardOf_point:
  "routeHazardOf [p0, p0] 50 pointHazard =
     Some \<lparr>rh_hazard = pointHazard, distanceToRoute = Fin 0\<rparr>"
  by (simp add: routeHazardOf_def pointHazard_def minDist_p0 [unfolded p0_def] p0_def)

lemma routeHazardOf_zone:
  "routeHazardOf [p0, p0] 50 zoneHazard =
     Some \<lparr>rh_hazard = zoneHazard, distanceToRoute = Fin 0\<rparr>"
  by (simp add: routeHazardOf_def zoneHazard_def zone_on_route)

lemma compare_zone_point:
  "compareRouteHazards \<lparr>rh_hazard = pointHazard, distanceToRoute = Fin 0\<rparr>
     \<lparr>rh_hazard = zoneHazard, distanceToRoute = Fin 0\<rparr> = Fin 1"
  by (simp add: compareRouteHazards_def hazardPriority_def pointHazard_def zoneHazard_def)

lemma filter_twoHazards:
  "filterHazardsByRoute twoHazards (Some shortRoute) 50 =
     [\<lparr>rh_hazard = zoneHazard, distanceToRoute = Fin 0\<rparr>,
      \<lparr>rh_hazard = pointHazard, distanceToRoute = Fin 0\<rparr>]"
  by (simp add: filterHazardsByRoute_def shortRoute_def twoHazards_def List.map_filter_def
      routeHazardOf_point routeHazardOf_zone jsSort_def compare_zone_point)

theorem getUpcomingHazards_only_points_witness:
  "getUpcomingHazards twoHazards p0 (Some shortRoute) 1000 =
     [\<lparr>uh_hazard = \<lparr>rh_hazard = pointHazard, distanceToRoute = Fin 0\<rparr>, distanceFromUser = 0\<rparr>]
   \<and> isPoint (geometry pointHazard) \<and> isPolygon (geometry zoneHazard)
   \<and> zoneHazard \<in> rh_hazard ` set (filterHazardsByRoute twoHazards (Some shortRoute) 50)"
  using getUpcomingHazards_only_points [of twoHazards p0 "Some shortRoute" 1000]
  by (simp add: getUpcomingHazards_def filter_twoHazards List.map_filter_def upcomingOf_def
      pointHazard_def zoneHazard_def p0_def haversineDistance_same jsSort_def)

subsection \<open>The expiry sweep\<close>

text \<open>
  C2, as the claim states it, fails: a hazard of kind \<open>accident\<close> that \<open>addHazard\<close> stored six
  minutes ago, inside a ten-minute window, is removed by the sweep, and so is a hazard of
  kind \<open>riskArea\<close> that \<open>addHazard\<close> stored under the id it generates.
\<close>

theorem expirySweep_counterexample:
  "fst (addHazard 0 ''k3x9'' accidentDraft emptyStore) = Some freshAccident
   \<and> fst (addHazard 0 ''k3x9'' zoneDraft emptyStore) = Some freshZone
   \<and> hazard_type freshAccident \<noteq> ''riskArea''
   \<and> hazard_type freshZone = ''riskArea''
   \<and> 6 * 60 * 1000 - updatedAt freshAccident < 10 * 60 * 1000
   \<and> hazards (expirySweep (6 * 60 * 1000)
               \<lparr> hazards = [freshAccident, freshZone], emitted = [] \<rparr>) = []"
  by (simp add: addHazard_def accidentDraft_def zoneDraft_def emptyStore_def freshAccident_def
      freshZone_def showInt_def digit_char_def clamp_def expirySweep_def startsWith_def Let_def)

text \<open>
  C2, amended. The retention window is five minutes and the exemption goes by the id: a
  stored hazard that is not a \<open>riskArea\<close> and whose id does not start with \<open>risk-\<close> survives
  the sweep exactly when it was updated less than five minutes before it; a \<open>riskArea\<close>
  whose id starts with \<open>risk-\<close> always survives; the sweep notifies nobody.
\<close>

theorem expirySweep_retention:
  assumes "h \<in> set (hazards st)"
  shows "(hazard_type h \<noteq> ''riskArea'' \<and> \<not> startsWith (hazard_id h) ''risk-'' \<longrightarrow>
            (h \<in> set (hazards (expirySweep now st)) \<longleftrightarrow> now - 5 * 60 * 1000 < updatedAt h))
       \<and> (hazard_type h = ''riskArea'' \<and> startsWith (hazard_id h) ''risk-'' \<longrightarrow>
            h \<in> set (hazards (expirySweep now st)))
       \<and> emitted (expirySweep now st) = emitted st"
  using assms by (auto simp: expirySweep_def)

theorem expirySweep_retention_witness:
  "pointHazard \<in> set (hazards twoHazards) \<and> zoneHazard \<in> set (hazards twoHazards)
   \<and> hazard_type pointHazard \<noteq> ''riskArea'' \<and> \<not> startsWith (hazard_id pointHazard) ''risk-''
   \<and> hazard_type zoneHazard = ''riskArea'' \<and> startsWith (hazard_id zoneHazard) ''risk-''
   \<and> hazards (expirySweep 299999 twoHazards) = [pointHazard, zoneHazard]
   \<and> hazards (expirySweep 300000 twoHazards) = [zoneHazard]"
  using expirySweep_retention [of pointHazard twoHazards 300000]
    expirySweep_retention [of zoneHazard twoHazards 300000]
  by (simp add: twoHazards_def pointHazard_def zoneHazard_def expirySweep_def startsWith_def)

subsection \<open>The penalty of a Point hazard\<close>






text \<open>
  Outside the kinds: a type that is the name of a member of \<open>Object.prototype\<close> has no
  numeric weight and its penalty within the buffer is \<open>NaN\<close>; any other unlisted type
  weighs 5.
\<close>

lemma inherited_type_score:
  "calculateSafetyScore shortRoute [constructorHazard] = NaN"
  by (simp add: calculateSafetyScore_def addPenalty_def constructorHazard_def shortRoute_def
      minDist_p0 [unfolded p0_def] p0_def HAZARD_BUFFER_METERS_def safetyWeight_def
      objectPrototypeMembers_def js_sub_def)

lemma unlisted_type_weight:
  "spec_kindWeight ty = None \<Longrightarrow> ty \<notin> set objectPrototypeMembers \<Longrightarrow> safetyWeight ty = Fin 5"
  by (auto simp: spec_kindWeight_def safetyWeight_def split: if_splits)



subsection \<open>Speed\<close>

text \<open>
  C7, as the claim states it, fails. In the older \<open>startGeolocation\<close> a speed of \<open>-1\<close> is
  taken as it is; a sample twenty seconds after the previous one still gets distance
  over time; and two seconds after a sample nothing of a previous speed is blended in.
  In the newer one, a sample two seconds after one that has no speed gets distance over
  time whole, not 30% of it.
\<close>

theorem speed_rule_counterexample:
  "speedMS_legacy negativeSample (Some lastFix) = Some (-1)
   \<and> speedMS_legacy staleBareSample (Some lastFix) = Some (6371000 * pi / 20)
   \<and> speedMS_legacy bareSample (Some lastFix) = Some (3185500 * pi)
   \<and> 3185500 * pi \<noteq> 0.7 * 10 + 0.3 * (3185500 * pi)
   \<and> speedMS bareSample (Some firstFix) = Some (3185500 * pi)
   \<and> 3185500 * pi \<noteq> 0.3 * (3185500 * pi)"
proof -
  have a: "speedMS_legacy negativeSample (Some lastFix) = Some (-1)"
    by (simp add: speedMS_legacy_def negativeSample_def)
  have b: "speedMS_legacy staleBareSample (Some lastFix) = Some (6371000 * pi / 20)"
    by (simp add: speedMS_legacy_def staleBareSample_def lastFix_def elapsedSeconds_def
        haversineDistance_far)
  have c: "speedMS_legacy bareSample (Some lastFix) = Some (3185500 * pi)"
    by (simp add: speedMS_legacy_def bareSample_def lastFix_def elapsedSeconds_def
        haversineDistance_far)
  have d: "3185500 * pi \<noteq> 0.7 * 10 + 0.3 * (3185500 * pi)"
    using pi_ge_two by simp
  have e: "speedMS bareSample (Some firstFix) = Some (3185500 * pi)"
    by (simp add: speedMS_def deviceSpeed_def bareSample_def firstFix_def elapsedSeconds_def
        haversineDistance_far)
  have f: "3185500 * pi \<noteq> 0.3 * (3185500 * pi)"
    using pi_gt_zero by simp
  from a b c d e f show ?thesis by blast
qed

lemma speedMS_device:
  "sm_speed s = Some v \<Longrightarrow> 0 \<le> v \<Longrightarrow> speedMS s lastPos = Some v"
  by (simp add: speedMS_def deviceSpeed_def)

lemma deviceSpeed_none:
  "sm_speed s = None \<or> (\<exists>u. sm_speed s = Some u \<and> u < 0) \<Longrightarrow> deviceSpeed s = None"
  by (auto simp: deviceSpeed_def)

lemma speedMS_blended:
  assumes "sm_speed s = None \<or> (\<exists>u. sm_speed s = Some u \<and> u < 0)"
    and "0.5 < elapsedSeconds s l" and "elapsedSeconds s l < 10"
    and "lp_speed l = Some previous"
  shows "speedMS s (Some l) =
           Some (0.7 * previous
                 + 0.3 * (haversineDistance (lp_p l) (sm_position s) / elapsedSeconds s l))"
  using deviceSpeed_none [OF assms(1)] assms(2-4) by (simp add: speedMS_def Let_def)

lemma speedMS_first:
  assumes "sm_speed s = None \<or> (\<exists>u. sm_speed s = Some u \<and> u < 0)"
    and "0.5 < elapsedSeconds s l" and "elapsedSeconds s l < 10"
    and "lp_speed l = None"
  shows "speedMS s (Some l) =
           Some (haversineDistance (lp_p l) (sm_position s) / elapsedSeconds s l)"
  using deviceSpeed_none [OF assms(1)] assms(2-4) by (simp add: speedMS_def Let_def)

lemma speedMS_outside:
  assumes "sm_speed s = None \<or> (\<exists>u. sm_speed s = Some u \<and> u < 0)"
    and "\<not> (0.5 < elapsedSeconds s l \<and> elapsedSeconds s l < 10)"
  shows "speedMS s (Some l) = Some (numOr (lp_speed l) 0)"
  using deviceSpeed_none [OF assms(1)] assms(2) by (auto simp: speedMS_def Let_def)

lemma speedMS_no_previous:
  assumes "sm_speed s = None \<or> (\<exists>u. sm_speed s = Some u \<and> u < 0)"
  shows "speedMS s None = None"
  using deviceSpeed_none [OF assms] by (simp add: speedMS_def)

lemma speedMS_legacy_device: "sm_speed s = Some v \<Longrightarrow> speedMS_legacy s lastPos = Some v"
  by (simp add: speedMS_legacy_def)

lemma speedMS_legacy_unsmoothed:
  "sm_speed s = None \<Longrightarrow> 0 < elapsedSeconds s l \<Longrightarrow>
   speedMS_legacy s (Some l) =
     Some (haversineDistance (lp_p l) (sm_position s) / elapsedSeconds s l)"
  by (simp add: speedMS_legacy_def Let_def)

lemma speedMS_legacy_none:
  "sm_speed s = None \<Longrightarrow> \<not> 0 < elapsedSeconds s l \<Longrightarrow> speedMS_legacy s (Some l) = None"
  by (simp add: speedMS_legacy_def Let_def)

text \<open>
  C7, amended. In the component that \<open>App\<close> mounts: a sample that carries a speed that is
  not negative has that speed. A sample without one (none, or a negative one), taken
  more than 0.5 s and less than 10 s after the previous sample, gets distance over
  elapsed time: blended as 70% of the previous speed plus 30% of it when the previous
  sample has a speed, and whole when it has none. Outside that interval nothing is
  derived from the distance: the previous speed stands (0 if there is none); and with no
  previous sample there is no speed. In the older component every speed that is a number
  is taken, a negative one too, and a sample without one gets distance over elapsed
  time, unblended, whenever the elapsed time is positive.
\<close>

theorem speed_rule:
  "(sm_speed s1 = Some v \<and> 0 \<le> v \<longrightarrow> speedMS s1 last1 = Some v)
   \<and> ((sm_speed s2 = None \<or> (\<exists>u. sm_speed s2 = Some u \<and> u < 0))
        \<and> 0.5 < (sm_timestamp s2 - lp_ts l2) / 1000 \<and> (sm_timestamp s2 - lp_ts l2) / 1000 < 10
        \<and> lp_speed l2 = Some previous \<longrightarrow>
      speedMS s2 (Some l2) =
        Some (0.7 * previous
              + 0.3 * (haversineDistance (lp_p l2) (sm_position s2)
                       / ((sm_timestamp s2 - lp_ts l2) / 1000))))
   \<and> ((sm_speed s3 = None \<or> (\<exists>u. sm_speed s3 = Some u \<and> u < 0))
        \<and> 0.5 < (sm_timestamp s3 - lp_ts l3) / 1000 \<and> (sm_timestamp s3 - lp_ts l3) / 1000 < 10
        \<and> lp_speed l3 = None \<longrightarrow>
      speedMS s3 (Some l3) =
        Some (haversineDistance (lp_p l3) (sm_position s3)
              / ((sm_timestamp s3 - lp_ts l3) / 1000)))
   \<and> ((sm_speed s4 = None \<or> (\<exists>u. sm_speed s4 = Some u \<and> u < 0))
        \<and> \<not> (0.5 < (sm_timestamp s4 - lp_ts l4) / 1000
              \<and> (sm_timestamp s4 - lp_ts l4) / 1000 < 10) \<longrightarrow>
      speedMS s4 (Some l4) = Some (numOr (lp_speed l4) 0))
   \<and> ((sm_speed s5 = None \<or> (\<exists>u. sm_speed s5 = Some u \<and> u < 0)) \<longrightarrow>
      speedMS s5 None = None)
   \<and> (sm_speed s6 = Some v6 \<longrightarrow> speedMS_legacy s6 last6 = Some v6)
   \<and> (sm_speed s7 = None \<and> 0 < (sm_timestamp s7 - lp_ts l7) / 1000 \<longrightarrow>
      speedMS_legacy s7 (Some l7) =
        Some (haversineDistance (lp_p l7) (sm_position s7)
              / ((sm_timestamp s7 - lp_ts l7) / 1000)))
   \<and> (sm_speed s8 = None \<and> \<not> 0 < (sm_timestamp s8 - lp_ts l8) / 1000 \<longrightarrow>
      speedMS_legacy s8 (Some l8) = None)"
  using speedMS_device [of s1 v last1]
    speedMS_blended [of s2 l2 previous, unfolded elapsedSeconds_def]
    speedMS_first [of s3 l3, unfolded elapsedSeconds_def]
    speedMS_outside [of s4 l4, unfolded elapsedSeconds_def]
    speedMS_no_previous [of s5]
    speedMS_legacy_device [of s6 v6 last6]
    speedMS_legacy_unsmoothed [of s7 l7, unfolded elapsedSeconds_def]
    speedMS_legacy_none [of s8 l8, unfolded elapsedSeconds_def]
  by blast

theorem speed_rule_witness:
  "sm_speed gpsSample = Some 5 \<and> (0::real) \<le> 5 \<and> speedMS gpsSample (Some lastFix) = Some 5
   \<and> sm_speed bareSample = None
   \<and> (sm_timestamp bareSample - lp_ts lastFix) / 1000 = 2
   \<and> lp_speed lastFix = Some 10
   \<and> haversineDistance (lp_p lastFix) (sm_position bareSample) = 6371000 * pi
   \<and> speedMS bareSample (Some lastFix) = Some (0.7 * 10 + 0.3 * (6371000 * pi / 2))
   \<and> sm_speed negativeSample = Some (-1)
   \<and> (sm_timestamp negativeSample - lp_ts firstFix) / 1000 = 2
   \<and> lp_speed firstFix = None
   \<and> speedMS negativeSample (Some firstFix) = Some (6371000 * pi / 2)
   \<and> sm_speed staleSample = Some (-1)
   \<and> (sm_timestamp staleSample - lp_ts lastFix) / 1000 = 20
   \<and> speedMS staleSample (Some lastFix) = Some 10
   \<and> speedMS bareSample None = None
   \<and> speedMS_legacy negativeSample (Some lastFix) = Some (-1)
   \<and> sm_speed staleBareSample = None
   \<and> (sm_timestamp staleBareSample - lp_ts lastFix) / 1000 = 20
   \<and> speedMS_legacy staleBareSample (Some lastFix) = Some (6371000 * pi / 20)
   \<and> (sm_timestamp bareSample - lp_ts \<lparr> lp_p = pFar, lp_ts = 3000, lp_speed = None \<rparr>) / 1000 = 0
   \<and> speedMS_legacy bareSample (Some \<lparr> lp_p = pFar, lp_ts = 3000, lp_speed = None \<rparr>) = None"
proof -
  have h: "sm_speed gpsSample = Some 5" "sm_speed bareSample = None"
    "(sm_timestamp bareSample - lp_ts lastFix) / 1000 = 2" "lp_speed lastFix = Some 10"
    "haversineDistance (lp_p lastFix) (sm_position bareSample) = 6371000 * pi"
    "sm_speed negativeSample = Some (-1)"
    "(sm_timestamp negativeSample - lp_ts firstFix) / 1000 = 2" "lp_speed firstFix = None"
    "haversineDistance (lp_p firstFix) (sm_position negativeSample) = 6371000 * pi"
    "sm_speed staleSample = Some (-1)"
    "(sm_timestamp staleSample - lp_ts lastFix) / 1000 = 20"
    "sm_speed staleBareSample = None"
    "(sm_timestamp staleBareSample - lp_ts lastFix) / 1000 = 20"
    "haversineDistance (lp_p lastFix) (sm_position staleBareSample) = 6371000 * pi"
    "(sm_timestamp bareSample - lp_ts \<lparr> lp_p = pFar, lp_ts = 3000, lp_speed = None \<rparr>) / 1000 = 0"
    by (simp_all add: gpsSample_def bareSample_def negativeSample_def staleSample_def
        staleBareSample_def lastFix_def firstFix_def haversineDistance_far)
  note t = speed_rule [of gpsSample 5 "Some lastFix" bareSample lastFix 10
      negativeSample firstFix staleSample lastFix bareSample negativeSample "-1" "Some lastFix"
      staleBareSample lastFix bareSample "\<lparr> lp_p = pFar, lp_ts = 3000, lp_speed = None \<rparr>"]
  from t h show ?thesis by simp
qed

subsection \<open>The best route\<close>

text \<open>
  C6, as the claim states it, fails: when the provider answers with one feature of a single
  coordinate, \<open>getBestRoute\<close> returns the route parsed from it, with one coordinate.
\<close>

theorem getBestRoute_counterexample:
  "map_option (\<lambda>r. length (coordinates r))
     (fst (getBestRoute p0 pFar [] (Replied (Some [stubFeature])) Map.empty)) = Some 1"
  by (simp add: getBestRoute_def bestOfFetched_def fetchedRoutes_def parseORSResponse_def
      parseFeature_def stubFeature_def scoreAndSort_def jsSort_def firstRoute_def ringPoints_def
      enumerate_eq_zip Let_def)

lemma createFallbackRoute_length: "3 \<le> length (coordinates (createFallbackRoute s e))"
  by (simp add: createFallbackRoute_def Let_def)

lemma scoreAndSort_longEnough: "longEnough rs \<Longrightarrow> longEnough (scoreAndSort hs rs)"
proof -
  assume a: "longEnough rs"
  have "length (scoreAndSort hs rs) = length rs"
    by (simp add: scoreAndSort_def length_jsSort)
  moreover have "set (scoreAndSort hs rs)
      = (\<lambda>r. r\<lparr>safetyScore := calculateSafetyScore r hs\<rparr>) ` set rs"
    by (simp add: scoreAndSort_def set_jsSort)
  ultimately show ?thesis
    using a by (auto simp: longEnough_def list_all_iff)
qed

lemma firstRoute_longEnough:
  "longEnough rs \<Longrightarrow> \<exists>r. firstRoute rs = Some r \<and> 2 \<le> length (coordinates r)"
  by (cases rs) (auto simp: longEnough_def firstRoute_def)

lemma parse_longEnough:
  assumes "\<forall>f \<in> set fs. 2 \<le> length (f_coordinates f)"
  shows "list_all (\<lambda>r. 2 \<le> length (coordinates r)) (parseORSResponse (Some fs))"
  using assms
  by (auto simp: parseORSResponse_def list_all_iff parseFeature_def ringPoints_def
      in_set_enumerate_eq)

lemma fetchedRoutes_longEnough:
  assumes "\<forall>fs. reply = Replied (Some fs) \<longrightarrow> (\<forall>f \<in> set fs. 2 \<le> length (f_coordinates f))"
  shows "longEnough (fst (fetchedRoutes s e reply))"
proof (cases reply)
  case Failed
  then show ?thesis
    using createFallbackRoute_length [of s e] by (simp add: fetchedRoutes_def longEnough_def)
next
  case (Replied data)
  show ?thesis
  proof (cases data)
    case None
    then show ?thesis
      using Replied createFallbackRoute_length [of s e]
      by (simp add: fetchedRoutes_def longEnough_def parseORSResponse_def)
  next
    case (Some fs)
    then show ?thesis
      using Replied createFallbackRoute_length [of s e] parse_longEnough [of fs] assms
      by (simp add: fetchedRoutes_def longEnough_def Let_def)
  qed
qed

text \<open>
  C6, amended. The fallback route always has two waypoints or more (three, in fact). When
  every coordinate sequence the provider returns has two entries or more, and so has every
  route cached before, \<open>getBestRoute\<close> returns a route with two coordinates or more, and
  the cache is left in that condition: the code sets no minimum of its own on what the
  provider sends.
\<close>

theorem getBestRoute_two_coordinates:
  assumes cache: "\<forall>k rs. cache k = Some rs \<longrightarrow> longEnough rs"
    and reply: "\<forall>fs. reply = Replied (Some fs) \<longrightarrow> (\<forall>f \<in> set fs. 2 \<le> length (f_coordinates f))"
  shows "(\<exists>r. fst (getBestRoute s e hs reply cache) = Some r \<and> 2 \<le> length (coordinates r))
       \<and> (\<forall>k rs. snd (getBestRoute s e hs reply cache) k = Some rs \<longrightarrow> longEnough rs)
       \<and> 2 \<le> length (coordinates (createFallbackRoute s e))"
proof (cases "cache (s, e)")
  case None
  have ok: "longEnough (scoreAndSort hs (fst (fetchedRoutes s e reply)))"
    using fetchedRoutes_longEnough [OF reply] by (rule scoreAndSort_longEnough)
  show ?thesis
    using None ok cache firstRoute_longEnough [OF ok] createFallbackRoute_length [of s e]
    by (auto simp: getBestRoute_def bestOfFetched_def Let_def split: prod.splits)
next
  case (Some cached)
  have ok: "longEnough (scoreAndSort hs cached)"
    using cache Some by (blast intro: scoreAndSort_longEnough)
  show ?thesis
    using Some ok cache firstRoute_longEnough [OF ok] createFallbackRoute_length [of s e]
    by (auto simp: getBestRoute_def bestOfCached_def Let_def)
qed

lemma pFar_ne_p0: "pFar \<noteq> p0"
  by (simp add: p0_def pFar_def)

lemma fallback_same_length: "length (coordinates (createFallbackRoute a a)) = 3"
  by (simp add: createFallbackRoute_def haversineDistance_same Let_def)

lemma best_failed:
  "map_option (\<lambda>r. length (coordinates r)) (fst (getBestRoute p0 p0 [] Failed Map.empty)) = Some 3"
  by (simp add: getBestRoute_def bestOfFetched_def fetchedRoutes_def scoreAndSort_def jsSort_def
      firstRoute_def fallback_same_length)

lemma parse_line: "map coordinates (parseORSResponse (Some [lineFeature])) = [[p0, pFar]]"
  by (simp add: parseORSResponse_def parseFeature_def ringPoints_def enumerate_eq_zip
      lineFeature_def p0_def pFar_def)

lemma best_line:
  "map_option (\<lambda>r. length (coordinates r))
       (fst (getBestRoute p0 pFar [] (Replied (Some [lineFeature])) [(p0, p0) \<mapsto> [shortRoute]]))
       = Some 2"
  using parse_line
  by (auto simp: getBestRoute_def bestOfFetched_def fetchedRoutes_def pFar_ne_p0
       scoreAndSort_def jsSort_def firstRoute_def Let_def split: list.splits)

theorem getBestRoute_two_coordinates_witness:
  "longEnough [shortRoute]
   \<and> list_all (\<lambda>f. 2 \<le> length (f_coordinates f)) [lineFeature]
   \<and> map_option (\<lambda>r. length (coordinates r))
       (fst (getBestRoute p0 pFar [] (Replied (Some [lineFeature])) [(p0, p0) \<mapsto> [shortRoute]]))
       = Some 2
   \<and> map_option (\<lambda>r. length (coordinates r))
       (fst (getBestRoute p0 p0 [] Failed Map.empty)) = Some 3"
proof -
  have c: "\<forall>k rs. [(p0, p0) \<mapsto> [shortRoute]] k = Some rs \<longrightarrow> longEnough rs"
    by (auto simp: longEnough_def shortRoute_def split: if_splits)
  have r: "\<forall>fs. Replied (Some [lineFeature]) = Replied (Some fs)
            \<longrightarrow> (\<forall>f \<in> set fs. 2 \<le> length (f_coordinates f))"
    by (simp add: lineFeature_def)
  have l: "longEnough [shortRoute]"
    by (simp add: longEnough_def shortRoute_def)
  have f: "list_all (\<lambda>f. 2 \<le> length (f_coordinates f)) [lineFeature]"
    by (simp add: lineFeature_def)
  from getBestRoute_two_coordinates [OF c r, of p0 pFar "[]"] l f best_line best_failed
  show ?thesis by blast
qed

subsection \<open>What the controller's steps leave alone\<close>

lemma updateNavigationStats_frame:
  "lastRerouteTime (updateNavigationStats w) = lastRerouteTime w
   \<and> settings (updateNavigationStats w) = settings w
   \<and> notified (updateNavigationStats w) = notified w
   \<and> inFlight (updateNavigationStats w) = inFlight w
   \<and> destination (updateNavigationStats w) = destination w"
  by (simp add: updateNavigationStats_def Let_def split: option.splits)

lemma stopNavigation_frame:
  "lastRerouteTime (stopNavigation w) = lastRerouteTime w
   \<and> settings (stopNavigation w) = settings w
   \<and> reroutesStarted (stopNavigation w) = reroutesStarted w
   \<and> inFlight (stopNavigation w) = inFlight w"
  by (simp add: stopNavigation_def notifyListeners_def reroutesStarted_def)

lemma handleDestinationReached_frame:
  "lastRerouteTime (handleDestinationReached w) = lastRerouteTime w
   \<and> settings (handleDestinationReached w) = settings w
   \<and> reroutesStarted (handleDestinationReached w) = reroutesStarted w
   \<and> inFlight (handleDestinationReached w) = inFlight w"
  by (simp add: handleDestinationReached_def stopNavigation_frame)
     (simp add: notifyListeners_def reroutesStarted_def)

lemma finishPositionUpdate_frame:
  "lastRerouteTime (finishPositionUpdate np pp off w) = lastRerouteTime w
   \<and> settings (finishPositionUpdate np pp off w) = settings w
   \<and> reroutesStarted (finishPositionUpdate np pp off w) = reroutesStarted w
   \<and> inFlight (finishPositionUpdate np pp off w) = inFlight w"
  using updateNavigationStats_frame [of w]
  by (simp add: finishPositionUpdate_def Let_def handleDestinationReached_frame
      split: option.splits)
     (simp add: notifyListeners_def reroutesStarted_def)

lemma applyReroute_frame:
  "lastRerouteTime (applyReroute reason nr w) = lastRerouteTime w
   \<and> settings (applyReroute reason nr w) = settings w
   \<and> reroutesStarted (applyReroute reason nr w) = reroutesStarted w
   \<and> inFlight (applyReroute reason nr w) = inFlight w"
  using updateNavigationStats_frame [of "w\<lparr>currentRoute := nr\<rparr>"]
  by (cases nr) (simp_all add: applyReroute_def Let_def notifyListeners_def reroutesStarted_def)

lemma afterRoute_frame:
  "lastRerouteTime (afterRoute k nr w) = lastRerouteTime w
   \<and> settings (afterRoute k nr w) = settings w
   \<and> reroutesStarted (afterRoute k nr w) = reroutesStarted w
   \<and> inFlight (afterRoute k nr w) = inFlight w"
proof (cases k)
  case AfterStart
  then show ?thesis
    using updateNavigationStats_frame [of "w\<lparr>currentRoute := nr\<rparr>"]
    by (cases nr) (simp_all add: notifyListeners_def reroutesStarted_def)
next
  case (AfterDeviation np pp off)
  then show ?thesis
    by (simp add: finishPositionUpdate_frame applyReroute_frame)
next
  case AfterManual
  then show ?thesis by (simp add: applyReroute_frame)
qed

lemma requestRoute_frame:
  "lastRerouteTime (requestRoute s e k w) = lastRerouteTime w
   \<and> settings (requestRoute s e k w) = settings w
   \<and> reroutesStarted (requestRoute s e k w) = reroutesStarted w"
  by (simp add: requestRoute_def Let_def afterRoute_frame reroutesStarted_def
      split: option.splits prod.splits)
     (simp add: afterRoute_frame [unfolded reroutesStarted_def])

lemma routeReply_frame:
  "lastRerouteTime (routeReply i reply w) = lastRerouteTime w
   \<and> settings (routeReply i reply w) = settings w
   \<and> reroutesStarted (routeReply i reply w) = reroutesStarted w"
  by (simp add: routeReply_def Let_def afterRoute_frame split: prod.splits)
     (simp add: reroutesStarted_def)

lemma update_in_cooldown:
  assumes "now - lastRerouteTime w < rerouteDelay (settings w)"
  shows "reroutesStarted (handlePositionUpdate now pos w) = reroutesStarted w
       \<and> inFlight (handlePositionUpdate now pos w) = inFlight w"
  using assms
  by (simp add: handlePositionUpdate_def handleRouteDeviation_def Let_def
      finishPositionUpdate_frame split: option.splits)
     (simp add: reroutesStarted_def)

lemma update_off_route:
  assumes "isNavigating w" and "currentRoute w = Some r" and "\<not> isRerouting w"
    and "rerouteDelay (settings w) \<le> now - lastRerouteTime w"
    and "js_lt (Fin (routeDeviationThreshold (settings w)))
           (cl_distance (findClosestPointOnRoute pos (coordinates r)))"
  shows "reroutesStarted (handlePositionUpdate now pos w) = Suc (reroutesStarted w)
       \<and> lastRerouteTime (handlePositionUpdate now pos w) = now
       \<and> settings (handlePositionUpdate now pos w) = settings w"
  using assms
  by (simp add: handlePositionUpdate_def handleRouteDeviation_def Let_def
      finishPositionUpdate_frame requestRoute_frame split: option.splits)
     (simp add: reroutesStarted_def notifyListeners_def)



subsection \<open>Deviation and the cooldown\<close>

text \<open>
  C5. In an active session with a deviation threshold of 100 m and a reroute delay of
  5 s, where no reroute is under way and none began in the last 5 s, a position whose
  closest route vertex is more than 100 m away begins exactly one reroute. A position
  reported 2 s later begins none and sends no request, whether the provider has answered
  the first request in between (\<open>w1'\<close>) or not (\<open>w1\<close>).
\<close>

theorem deviation_reroutes_once:
  assumes "isNavigating w" and "currentRoute w = Some r" and "\<not> isRerouting w"
    and "routeDeviationThreshold (settings w) = 100"
    and "rerouteDelay (settings w) = 5000"
    and "5000 \<le> now - lastRerouteTime w"
    and "js_lt (Fin 100) (cl_distance (findClosestPointOnRoute pos1 (coordinates r)))"
    and "w1 = handlePositionUpdate now pos1 w"
    and "w1' = routeReply i reply w1"
  shows "reroutesStarted w1 = reroutesStarted w + 1
       \<and> reroutesStarted (handlePositionUpdate (now + 2000) pos2 w1) = reroutesStarted w1
       \<and> inFlight (handlePositionUpdate (now + 2000) pos2 w1) = inFlight w1
       \<and> reroutesStarted (handlePositionUpdate (now + 2000) pos2 w1') = reroutesStarted w1
       \<and> inFlight (handlePositionUpdate (now + 2000) pos2 w1') = inFlight w1'"
proof -
  have first: "reroutesStarted w1 = Suc (reroutesStarted w)
      \<and> lastRerouteTime w1 = now \<and> settings w1 = settings w"
    unfolding assms(8) using assms(1-7) by (intro update_off_route) simp_all
  have cool1: "(now + 2000) - lastRerouteTime w1 < rerouteDelay (settings w1)"
    using first assms(5) by simp
  have cool1': "(now + 2000) - lastRerouteTime w1' < rerouteDelay (settings w1')"
    unfolding assms(9) using first assms(5) routeReply_frame [of i reply w1] by simp
  have same: "reroutesStarted w1' = reroutesStarted w1"
    unfolding assms(9) using routeReply_frame [of i reply w1] by simp
  show ?thesis
    using first update_in_cooldown [OF cool1, of pos2] update_in_cooldown [OF cool1', of pos2] same
    by simp
qed

lemma far_is_far: "100 < 6371000 * pi"
  using pi_ge_two by simp

lemma closest_far:
  "cl_distance (findClosestPointOnRoute pFar [p0, p0]) = Fin (6371000 * pi)"
  by (simp add: findClosestPointOnRoute_def enumerate_eq_zip haversineDistance_far)

lemma parse_twin: "parseORSResponse (Some [twinFeature]) = [shortRoute]"
  by (simp add: parseORSResponse_def parseFeature_def twinFeature_def firstSegment_def
      ringPoints_def shortRoute_def p0_def digit_char_def)

lemma score_nil: "calculateSafetyScore r [] = Fin 0"
  by (simp add: calculateSafetyScore_def)

lemma activeSystem_fields:
  "isNavigating activeSystem \<and> currentRoute activeSystem = Some shortRoute
   \<and> \<not> isRerouting activeSystem
   \<and> destination activeSystem = Some p0
   \<and> currentPosition activeSystem = Some p0
   \<and> hazardService activeSystem = emptyStore
   \<and> settings activeSystem = settings (initialSystem emptyStore)
   \<and> lastRerouteTime activeSystem = 0
   \<and> inFlight activeSystem = []
   \<and> notified activeSystem = [NavigationStarted shortRoute (Some p0)]
   \<and> cachedRoutes activeSystem = [(p0, p0) \<mapsto> [shortRoute]]"
  apply (simp add: activeSystem_def startNavigation_def routeReply_def requestRoute_def
      initialSystem_def emptyStore_def Let_def)
  apply (simp add: bestOfFetched_def fetchedRoutes_def parse_twin scoreAndSort_def score_nil
      jsSort_def firstRoute_def Let_def)
  apply (simp add: shortRoute_def updateNavigationStats_def notifyListeners_def Let_def)
  done


theorem deviation_reroutes_once_witness:
  "isNavigating activeSystem \<and> currentRoute activeSystem = Some shortRoute
   \<and> \<not> isRerouting activeSystem
   \<and> routeDeviationThreshold (settings activeSystem) = 100
   \<and> rerouteDelay (settings activeSystem) = 5000
   \<and> 5000 \<le> 10000 - lastRerouteTime activeSystem
   \<and> js_lt (Fin 100) (cl_distance (findClosestPointOnRoute pFar (coordinates shortRoute)))
   \<and> reroutesStarted activeSystem = 0
   \<and> reroutesStarted (handlePositionUpdate 10000 pFar activeSystem) = 1
   \<and> reroutesStarted (handlePositionUpdate 12000 pFar
         (handlePositionUpdate 10000 pFar activeSystem)) = 1
   \<and> reroutesStarted (handlePositionUpdate 12000 pFar
         (routeReply 0 Failed (handlePositionUpdate 10000 pFar activeSystem))) = 1"
proof -
  have h: "isNavigating activeSystem" "currentRoute activeSystem = Some shortRoute"
    "\<not> isRerouting activeSystem"
    "routeDeviationThreshold (settings activeSystem) = 100"
    "rerouteDelay (settings activeSystem) = 5000"
    "5000 \<le> 10000 - lastRerouteTime activeSystem"
    using activeSystem_fields by (simp_all add: initialSystem_def)
  have off: "js_lt (Fin 100) (cl_distance (findClosestPointOnRoute pFar (coordinates shortRoute)))"
    using far_is_far by (simp add: shortRoute_def closest_far)
  have zero: "reroutesStarted activeSystem = 0"
    using activeSystem_fields by (simp add: reroutesStarted_def)
  from deviation_reroutes_once [OF h off refl refl, of pFar 0 Failed] h off zero
  show ?thesis by simp
qed


subsection \<open>One reroute at a time\<close>

text \<open>
  The deviation path honours the lock: while \<open>isRerouting\<close> holds, a position update sends
  no request. \<open>forceReroute\<close> does not look at it: on a cache miss it always sends one.
\<close>

lemma handlePositionUpdate_respects_lock:
  "isRerouting w \<Longrightarrow> inFlight (handlePositionUpdate now pos w) = inFlight w"
  by (simp add: handlePositionUpdate_def Let_def finishPositionUpdate_frame split: option.splits)

lemma forceReroute_ignores_lock:
  assumes "isNavigating w" and "currentPosition w = Some pos" and "destination w = Some dest"
    and "cachedRoutes w (pos, dest) = None"
  shows "inFlight (forceReroute w) = inFlight w @
           [\<lparr> rq_start = pos, rq_end = dest, rq_hazards = hazards (hazardService w),
              rq_then = AfterManual \<rparr>]"
  using assms by (simp add: forceReroute_def requestRoute_def Let_def)

lemma applyReroute_unlocks: "\<not> isRerouting (applyReroute reason nr w)"
  by (simp add: applyReroute_def Let_def)

lemma deviatedSystem_fields:
  "isNavigating deviatedSystem \<and> isRerouting deviatedSystem
   \<and> currentPosition deviatedSystem = Some pFar
   \<and> destination deviatedSystem = Some p0
   \<and> cachedRoutes deviatedSystem = [(p0, p0) \<mapsto> [shortRoute]]
   \<and> hazardService deviatedSystem = emptyStore
   \<and> inFlight deviatedSystem =
       [\<lparr> rq_start = pFar, rq_end = p0, rq_hazards = [],
          rq_then = AfterDeviation pFar (Some p0) True \<rparr>]"
  using activeSystem_fields far_is_far pFar_ne_p0
  by (simp add: deviatedSystem_def handlePositionUpdate_def handleRouteDeviation_def Let_def
      closest_far shortRoute_def initialSystem_def requestRoute_def notifyListeners_def
      emptyStore_def)


text \<open>
  C1 fails on the code. \<open>deviatedSystem\<close> is a session whose deviation reroute is in flight
  (\<open>isRerouting\<close> holds). \<open>forceReroute\<close> there is not dropped: it sends a second request, so
  two route computations overlap. When the manual one is answered first, its \<open>finally\<close>
  clears \<open>isRerouting\<close> while the deviation reroute is still in flight.
\<close>

theorem forceReroute_overlaps:
  "isNavigating deviatedSystem \<and> isRerouting deviatedSystem
   \<and> map rq_then (inFlight deviatedSystem) = [AfterDeviation pFar (Some p0) True]
   \<and> map rq_then (inFlight (forceReroute deviatedSystem))
       = [AfterDeviation pFar (Some p0) True, AfterManual]
   \<and> \<not> isRerouting (routeReply 1 Failed (forceReroute deviatedSystem))
   \<and> map rq_then (inFlight (routeReply 1 Failed (forceReroute deviatedSystem)))
       = [AfterDeviation pFar (Some p0) True]"
proof -
  have forced: "inFlight (forceReroute deviatedSystem) =
      [\<lparr> rq_start = pFar, rq_end = p0, rq_hazards = [],
         rq_then = AfterDeviation pFar (Some p0) True \<rparr>,
       \<lparr> rq_start = pFar, rq_end = p0, rq_hazards = [], rq_then = AfterManual \<rparr>]"
    using deviatedSystem_fields pFar_ne_p0
    by (simp add: forceReroute_def requestRoute_def Let_def emptyStore_def)
  have unlocked: "\<not> isRerouting (routeReply 1 Failed (forceReroute deviatedSystem))"
    by (simp add: routeReply_def Let_def forced applyReroute_unlocks split: prod.splits)
  have left: "inFlight (routeReply 1 Failed (forceReroute deviatedSystem)) =
      [\<lparr> rq_start = pFar, rq_end = p0, rq_hazards = [],
         rq_then = AfterDeviation pFar (Some p0) True \<rparr>]"
    by (simp add: routeReply_def Let_def forced applyReroute_frame split: prod.splits)
  show ?thesis
    using deviatedSystem_fields unlocked left by (simp add: forced)
qed


subsection \<open>Route progress\<close>

lemma closest_fold_cases:
  assumes "(\<exists>d. cl_distance c = Fin d) \<or> cl_distance c = PosInf"
  shows "(\<exists>d. cl_distance (foldl (\<lambda>c (i, q).
              let d = Fin (h q)
              in if js_lt d (cl_distance c)
                 then \<lparr> cl_point = Some q, cl_index = i, cl_distance = d \<rparr> else c) c xs) = Fin d)
       \<or> cl_distance (foldl (\<lambda>c (i, q).
              let d = Fin (h q)
              in if js_lt d (cl_distance c)
                 then \<lparr> cl_point = Some q, cl_index = i, cl_distance = d \<rparr> else c) c xs) = PosInf"
  using assms
proof (induction xs arbitrary: c)
  case Nil
  then show ?case by simp
next
  case (Cons x xs)
  obtain i q where x: "x = (i, q)" by (cases x)
  show ?case
    unfolding x foldl_Cons
    by (rule Cons.IH) (use Cons.prems in \<open>auto simp: Let_def\<close>)
qed

lemma cl_distance_cases:
  "(\<exists>d. cl_distance (findClosestPointOnRoute pos cs) = Fin d)
   \<or> cl_distance (findClosestPointOnRoute pos cs) = PosInf"
  unfolding findClosestPointOnRoute_def by (rule closest_fold_cases) simp

lemma remaining_cases:
  "(\<exists>a. remainingDistanceOf (findClosestPointOnRoute pos cs) cs = Fin a)
   \<or> remainingDistanceOf (findClosestPointOnRoute pos cs) cs = PosInf"
  using cl_distance_cases [of pos cs] by (auto simp: remainingDistanceOf_def)

lemma clamped_progress:
  assumes "(\<exists>a. rem = Fin a) \<or> rem = PosInf"
  shows "(rem = Fin 0 \<and> d = 0
            \<and> js_max (Fin 0) (js_min (Fin 1) (js_sub (Fin 1) (js_div rem (Fin d)))) = NaN)
       \<or> ((rem \<noteq> Fin 0 \<or> d \<noteq> 0)
            \<and> (\<exists>x. js_max (Fin 0) (js_min (Fin 1) (js_sub (Fin 1) (js_div rem (Fin d)))) = Fin x
                   \<and> 0 \<le> x \<and> x \<le> 1))"
proof (cases rem)
  case (Fin a)
  show ?thesis
  proof (cases "d = 0")
    case True
    then show ?thesis using Fin by (simp add: js_sub_def js_min_def js_max_def)
  next
    case False
    then show ?thesis using Fin by (simp add: js_sub_def js_min_def js_max_def)
  qed
next
  case PosInf
  then show ?thesis by (simp add: js_sub_def js_min_def js_max_def)
qed (use assms in auto)

lemma routeProgress_cases:
  assumes "currentRoute w = Some r" and "currentPosition w = Some pos"
    and "rem = remainingDistanceOf (findClosestPointOnRoute pos (coordinates r)) (coordinates r)"
  shows "(rem = Fin 0 \<and> distance r = 0
            \<and> routeProgress (navigationStats (updateNavigationStats w)) = Some NaN)
       \<or> ((rem \<noteq> Fin 0 \<or> distance r \<noteq> 0)
            \<and> (\<exists>x. routeProgress (navigationStats (updateNavigationStats w)) = Some (Fin x)
                   \<and> 0 \<le> x \<and> x \<le> 1))"
  using clamped_progress [OF remaining_cases [of pos "coordinates r"], of "distance r"] assms
  by (simp add: updateNavigationStats_def Let_def)


lemma interpolate_same: "interpolatePoint p p f = p"
  by (simp add: interpolatePoint_def)

lemma fallback_same:
  "coordinates (createFallbackRoute p p) = [p, p, p] \<and> distance (createFallbackRoute p p) = 0"
  by (simp add: createFallbackRoute_def haversineDistance_same Let_def interpolate_same
      numeral_2_eq_2)

lemma closest_same:
  "findClosestPointOnRoute p [p, p, p] = \<lparr> cl_point = Some p, cl_index = 0, cl_distance = Fin 0 \<rparr>"
  by (simp add: findClosestPointOnRoute_def enumerate_eq_zip haversineDistance_same)

lemma remaining_same:
  "remainingDistanceOf \<lparr> cl_point = Some p, cl_index = 0, cl_distance = Fin 0 \<rparr> [p, p, p] = Fin 0"
  by (simp add: remainingDistanceOf_def segments_def haversineDistance_same)


text \<open>
  C8 fails on the code. Navigation started towards the current position, with the
  provider failing, runs on a fallback route of distance 0 with nothing left to travel:
  \<open>updateNavigationStats\<close> computes \<open>0 / 0\<close>, the clamp lets \<open>NaN\<close> through, and
  \<open>routeProgress\<close> is \<open>NaN\<close>, which is not in the interval from 0 to 1. By
  \<open>routeProgress_cases\<close> that is the only way out of the interval.
\<close>

theorem zero_length_route_progress:
  "routeProgress (navigationStats
     (routeReply 0 Failed (startNavigation p p (initialSystem st)))) = Some NaN"
  by (simp add: startNavigation_def requestRoute_def initialSystem_def routeReply_def Let_def
      bestOfFetched_def fetchedRoutes_def scoreAndSort_def jsSort_def firstRoute_def
      updateNavigationStats_def notifyListeners_def fallback_same closest_same remaining_same
      js_sub_def js_min_def js_max_def)


end
